theory Spec2Isabelle
  imports Complex_Main
begin

section \<open>Errors\<close>

text \<open>
  The exceptions a call of the networks can raise. \<open>RuntimeError\<close> is what the tensor
  library raises for shapes that cannot be multiplied or broadcast, and for a negative
  dimension; \<open>ValueError\<close> is raised by the distributions' argument validation and by the
  optimizer's constructor; \<open>IndexError\<close> by \<^verbatim>\<open>obs.shape[1]\<close> on an array of rank below 2.
  \<open>ConfigurationError\<close> is the error that the specification gives to the construction of
  a network with an invalid dimension.
\<close>

datatype error =
  RuntimeError | ValueError | IndexError | AttributeError | NotImplementedError | ConfigurationError

section \<open>Arrays and tensors\<close>

text \<open>
  An n-dimensional array is its shape and its entries, read by multi-index. Entries are
  mathematical reals (rounding of the 32-bit floats is not modelled). \<open>requires_grad\<close> is
  the flag of the tensor library that says whether the value carries differentiation
  history; a plain numeric array never does.
\<close>

record 'a tensor =
  shape :: "nat list"
  entry :: "nat list \<Rightarrow> 'a"
  requires_grad :: bool

datatype ndarray = Int_Array "int tensor" | Float_Array "real tensor"

definition numel :: "nat list \<Rightarrow> nat" where
  "numel s = prod_list s"

text \<open>All multi-indices of a shape, in row-major order.\<close>

fun indices :: "nat list \<Rightarrow> nat list list" where
  "indices [] = [[]]"
| "indices (n # ns) = concat (map (\<lambda>i. map ((#) i) (indices ns)) [0..<n])"

definition sum_all :: "real tensor \<Rightarrow> real" where
  "sum_all t = sum_list (map (entry t) (indices (shape t)))"

text \<open>
  \<^verbatim>\<open>Tensor.mean()\<close> of all entries. The mean of an empty tensor is NaN in the library;
  here it is \<open>None\<close>.
\<close>

definition mean :: "real tensor \<Rightarrow> real option" where
  "mean t = (if numel (shape t) = 0 then None
             else Some (sum_all t / real (numel (shape t))))"

text \<open>
  Broadcasting of two shapes, aligned at the last dimension: two sizes are compatible
  when they are equal or one of them is 1; a missing leading dimension counts as 1.
\<close>

fun broadcast_rev :: "nat list \<Rightarrow> nat list \<Rightarrow> nat list option" where
  "broadcast_rev [] ys = Some ys"
| "broadcast_rev (x # xs) [] = Some (x # xs)"
| "broadcast_rev (x # xs) (y # ys) =
     (if x = y \<or> y = 1 then map_option ((#) x) (broadcast_rev xs ys)
      else if x = 1 then map_option ((#) y) (broadcast_rev xs ys)
      else None)"

definition broadcast_shapes :: "nat list \<Rightarrow> nat list \<Rightarrow> nat list option" where
  "broadcast_shapes a b = map_option rev (broadcast_rev (rev a) (rev b))"

text \<open>
  The index of the source entry that an entry of the broadcast result reads: the last
  dimensions of the index, with 0 in every dimension of size 1.
\<close>

definition expand_index :: "nat list \<Rightarrow> nat list \<Rightarrow> nat list" where
  "expand_index s idx =
     map (\<lambda>(n, i). if n = 1 then 0 else i) (zip s (drop (length idx - length s) idx))"

definition expand :: "nat list \<Rightarrow> 'a tensor \<Rightarrow> 'a tensor" where
  "expand s t = \<lparr>shape = s, entry = (\<lambda>idx. entry t (expand_index (shape t) idx)),
                 requires_grad = requires_grad t\<rparr>"

text \<open>An elementwise binary operation with broadcasting (\<^verbatim>\<open>a * b\<close>, \<^verbatim>\<open>a - b\<close>).\<close>

definition binop :: "(real \<Rightarrow> real \<Rightarrow> real) \<Rightarrow> real tensor \<Rightarrow> real tensor \<Rightarrow> error + real tensor" where
  "binop f a b =
     (case broadcast_shapes (shape a) (shape b) of
        None \<Rightarrow> Inl RuntimeError
      | Some s \<Rightarrow> Inr \<lparr>shape = s,
                       entry = (\<lambda>idx. f (entry (expand s a) idx) (entry (expand s b) idx)),
                       requires_grad = (requires_grad a \<or> requires_grad b)\<rparr>)"

text \<open>\<^verbatim>\<open>t.unsqueeze(-1)\<close>: a new last dimension of size 1.\<close>

definition unsqueeze_last :: "'a tensor \<Rightarrow> 'a tensor" where
  "unsqueeze_last t = \<lparr>shape = shape t @ [1], entry = (\<lambda>idx. entry t (butlast idx)),
                       requires_grad = requires_grad t\<rparr>"

definition map_tensor :: "('a \<Rightarrow> 'b) \<Rightarrow> 'a tensor \<Rightarrow> 'b tensor" where
  "map_tensor f t = \<lparr>shape = shape t, entry = (\<lambda>idx. f (entry t idx)),
                     requires_grad = requires_grad t\<rparr>"

text \<open>A vector as a tensor of rank 1.\<close>

definition vector :: "bool \<Rightarrow> 'a list \<Rightarrow> 'a tensor" where
  "vector rg xs = \<lparr>shape = [length xs], entry = (\<lambda>idx. xs ! hd idx), requires_grad = rg\<rparr>"

text \<open>
  Modelled from the spec: \<^verbatim>\<open>ptu.from_numpy\<close> and \<^verbatim>\<open>ptu.to_numpy\<close>
  (\<^verbatim>\<open>cs285/infrastructure/pytorch_util.py\<close> is not among the sources). Inputs and outputs
  cross the boundary as plain numeric arrays: \<open>from_numpy\<close> gives the float tensor of the
  same shape and entries, without history; \<open>to_numpy\<close> gives the detached array of a
  tensor.
\<close>

definition from_numpy :: "ndarray \<Rightarrow> real tensor" where
  "from_numpy a =
     (case a of
        Int_Array t \<Rightarrow> (map_tensor real_of_int t)\<lparr>requires_grad := False\<rparr>
      | Float_Array t \<Rightarrow> t\<lparr>requires_grad := False\<rparr>)"

definition to_numpy :: "ndarray \<Rightarrow> ndarray" where
  "to_numpy a =
     (case a of
        Int_Array t \<Rightarrow> Int_Array (t\<lparr>requires_grad := False\<rparr>)
      | Float_Array t \<Rightarrow> Float_Array (t\<lparr>requires_grad := False\<rparr>))"

section \<open>Feed-forward networks\<close>

text \<open>
  A network built by \<^verbatim>\<open>build_mlp\<close>: the sizes of its affine layers, in order, the
  activation applied after every layer but the last, and all weights and biases as one
  flat vector (for each layer its weight matrix, row by row, then its bias).
\<close>

record mlp =
  activation :: "real \<Rightarrow> real"
  dims :: "(nat \<times> nat) list"
  params :: "real list"

text \<open>One affine layer with \<open>i\<close> inputs and \<open>o\<close> outputs, on one input row.\<close>

definition linear_row :: "nat \<Rightarrow> nat \<Rightarrow> real list \<Rightarrow> real list \<Rightarrow> real list" where
  "linear_row i o' w x =
     map (\<lambda>r. sum_list (map (\<lambda>k. w ! (r * i + k) * x ! k) [0..<i]) + w ! (i * o' + r)) [0..<o']"

fun seq_row :: "(real \<Rightarrow> real) \<Rightarrow> (nat \<times> nat) list \<Rightarrow> real list \<Rightarrow> real list \<Rightarrow> real list" where
  "seq_row act [] w x = x"
| "seq_row act [(i, o')] w x = linear_row i o' w x"
| "seq_row act ((i, o') # d # ds) w x =
     seq_row act (d # ds) (drop (i * o' + o') w) (map act (linear_row i o' w x))"

text \<open>
  The network applied to a tensor whose last dimension holds the input features. A
  tensor of rank 0, or one whose last dimension is not the input size, cannot be
  multiplied with the first weight matrix. The parameters require gradients, so the
  result carries history exactly when gradient tracking is enabled.
\<close>

definition mlp_apply :: "bool \<Rightarrow> mlp \<Rightarrow> real tensor \<Rightarrow> error + real tensor" where
  "mlp_apply grad_enabled net x =
     (case dims net of
        [] \<Rightarrow> Inr x
      | (i, o') # ds \<Rightarrow>
          if shape x = [] \<or> last (shape x) \<noteq> i then Inl RuntimeError
          else Inr \<lparr>shape = butlast (shape x) @ [snd (last (dims net))],
                    entry = (\<lambda>idx. seq_row (activation net) (dims net) (params net)
                                     (map (\<lambda>k. entry x (butlast idx @ [k])) [0..<i]) ! last idx),
                    requires_grad = grad_enabled\<rparr>)"

text \<open>
  Modelled from the spec: \<^verbatim>\<open>ptu.build_mlp\<close> (\<^verbatim>\<open>cs285/infrastructure/pytorch_util.py\<close> is
  not among the sources): a stack of affine transforms with nonlinear activations,
  \<open>n_layers\<close> hidden layers of width \<open>size\<close>, from \<open>input_size\<close> to \<open>output_size\<close>. The spec
  fixes neither the activation nor the initial weights: they are the parameters \<open>act\<close>
  and \<open>init\<close>. By the spec a dimension that is 0 or negative is invalid, and construction
  with an invalid dimension fails immediately with a configuration error: so does the
  building of a layer with such a size.
\<close>

fun layer_dims :: "int \<Rightarrow> nat \<Rightarrow> int \<Rightarrow> int \<Rightarrow> (int \<times> int) list" where
  "layer_dims in_size 0 size' output_size = [(in_size, output_size)]"
| "layer_dims in_size (Suc n) size' output_size =
     (in_size, size') # layer_dims size' n size' output_size"

definition num_params :: "(nat \<times> nat) list \<Rightarrow> nat" where
  "num_params ds = sum_list (map (\<lambda>(i, o'). i * o' + o') ds)"

definition build_mlp ::
  "(real \<Rightarrow> real) \<Rightarrow> (nat \<Rightarrow> real) \<Rightarrow> int \<Rightarrow> int \<Rightarrow> int \<Rightarrow> int \<Rightarrow> error + mlp" where
  "build_mlp act init input_size output_size n_layers size' =
     (let ds = layer_dims input_size (nat n_layers) size' output_size in
      if list_ex (\<lambda>(i, o'). i \<le> 0 \<or> o' \<le> 0) ds then Inl ConfigurationError
      else let nds = map (\<lambda>(i, o'). (nat i, nat o')) ds in
        Inr \<lparr>activation = act, dims = nds, params = map init [0..<num_params nds]\<rparr>)"

section \<open>The Adam optimizer\<close>

text \<open>
  \<^verbatim>\<open>optim.Adam(parameters, learning_rate)\<close> with the library's defaults
  (\<open>\<beta>\<^sub>1 = 0.9\<close>, \<open>\<beta>\<^sub>2 = 0.999\<close>, \<open>\<epsilon> = 10\<^sup>-\<^sup>8\<close>, no weight decay), over the flat vector of all
  parameters it was given. Its state is the step count and the two moment estimates.
\<close>

record adam =
  lr :: real
  step_count :: nat
  exp_avg :: "real list"
  exp_avg_sq :: "real list"

definition beta1 :: real where "beta1 = 9 / 10"
definition beta2 :: real where "beta2 = 999 / 1000"
definition adam_eps :: real where "adam_eps = 1 / 10 ^ 8"

definition Adam :: "real list \<Rightarrow> real \<Rightarrow> error + adam" where
  "Adam parameters learning_rate =
     (if learning_rate < 0 then Inl ValueError
      else Inr \<lparr>lr = learning_rate, step_count = 0,
                exp_avg = replicate (length parameters) 0,
                exp_avg_sq = replicate (length parameters) 0\<rparr>)"

text \<open>\<^verbatim>\<open>optimizer.step()\<close>: the new parameters and the new optimizer state, from the gradient \<open>g\<close>.\<close>

definition adam_step :: "adam \<Rightarrow> real list \<Rightarrow> real list \<Rightarrow> real list \<times> adam" where
  "adam_step opt w g =
     (let t = Suc (step_count opt);
          m = map (\<lambda>i. beta1 * exp_avg opt ! i + (1 - beta1) * g ! i) [0..<length w];
          v = map (\<lambda>i. beta2 * exp_avg_sq opt ! i + (1 - beta2) * (g ! i * g ! i)) [0..<length w];
          step_size = lr opt / (1 - beta1 ^ t);
          w' = map (\<lambda>i. w ! i - step_size * (m ! i / (sqrt (v ! i) / sqrt (1 - beta2 ^ t) + adam_eps)))
                 [0..<length w]
      in (w', opt\<lparr>step_count := t, exp_avg := m, exp_avg_sq := v\<rparr>))"

section \<open>The value critic (critics.py)\<close>

text \<open>
  \<open>grad\<close> is the content of the parameters' \<^verbatim>\<open>.grad\<close> buffers: \<open>None\<close> after
  \<^verbatim>\<open>zero_grad()\<close>, the gradient after \<^verbatim>\<open>backward()\<close>.
\<close>

record ValueCritic =
  network :: mlp
  optimizer :: adam
  grad :: "real list option"

definition ValueCritic_init ::
  "(real \<Rightarrow> real) \<Rightarrow> (nat \<Rightarrow> real) \<Rightarrow> int \<Rightarrow> int \<Rightarrow> int \<Rightarrow> real \<Rightarrow> error + ValueCritic" where
  "ValueCritic_init act init ob_dim n_layers layer_size learning_rate =
     (case build_mlp act init ob_dim 1 n_layers layer_size of
        Inl e \<Rightarrow> Inl e
      | Inr net \<Rightarrow>
         (case Adam (params net) learning_rate of
            Inl e \<Rightarrow> Inl e
          | Inr opt \<Rightarrow> Inr \<lparr>network = net, optimizer = opt, grad = None\<rparr>))"

definition ValueCritic_forward :: "bool \<Rightarrow> ValueCritic \<Rightarrow> real tensor \<Rightarrow> error + real tensor" where
  "ValueCritic_forward grad_enabled self obs = mlp_apply grad_enabled (network self) obs"

text \<open>
  \<^verbatim>\<open>nn.MSELoss()\<close>: prediction and target are broadcast against each other (the library
  only warns when their shapes differ), and the squared differences are averaged over
  all entries of the broadcast result.
\<close>

definition mse_loss :: "real tensor \<Rightarrow> real tensor \<Rightarrow> error + real option" where
  "mse_loss y target =
     (case binop (\<lambda>a b. (a - b) * (a - b)) y target of
        Inl e \<Rightarrow> Inl e
      | Inr d \<Rightarrow> Inr (mean d))"

text \<open>The scalar loss that \<^verbatim>\<open>update\<close> computes, before the gradient step.\<close>

definition ValueCritic_loss :: "ValueCritic \<Rightarrow> ndarray \<Rightarrow> ndarray \<Rightarrow> error + real option" where
  "ValueCritic_loss self obs q_values =
     (let obs = from_numpy obs; q_values = from_numpy q_values in
      case ValueCritic_forward True self obs of
        Inl e \<Rightarrow> Inl e
      | Inr y \<Rightarrow> mse_loss y q_values)"

text \<open>
  \<^verbatim>\<open>ValueCritic.update\<close>. The gradient \<open>g\<close> of the loss in the parameters, which
  \<^verbatim>\<open>loss.backward()\<close> leaves in the \<^verbatim>\<open>.grad\<close> buffers, is computed by the library's
  automatic differentiation and is an input here. The result is the critic after the
  call and either the exception raised or the diagnostics.
\<close>

definition ValueCritic_update ::
  "ValueCritic \<Rightarrow> ndarray \<Rightarrow> ndarray \<Rightarrow> real list
     \<Rightarrow> ValueCritic \<times> (error + (string \<times> real option) list)" where
  "ValueCritic_update self obs q_values g =
     (let self = self\<lparr>ValueCritic.grad := None\<rparr> in
      case ValueCritic_loss self obs q_values of
        Inl e \<Rightarrow> (self, Inl e)
      | Inr loss \<Rightarrow>
          let self = self\<lparr>ValueCritic.grad := Some g\<rparr>;
              (w, opt) = adam_step (ValueCritic.optimizer self) (params (network self)) g;
              self = self\<lparr>network := (network self)\<lparr>params := w\<rparr>, ValueCritic.optimizer := opt\<rparr>
          in (self, Inr [(''Baseline Loss'', loss)]))"

section \<open>Action distributions\<close>

text \<open>
  The two distributions of the tensor library that \<^verbatim>\<open>forward\<close> returns. A categorical
  distribution keeps its logits normalised (minus the log-sum-exp over the last
  dimension); its batch shape is the shape without the last dimension. A normal
  distribution keeps mean and standard deviation, broadcast to a common batch shape.
\<close>

datatype distribution = Categorical "real tensor" | Normal "real tensor" "real tensor"

definition Categorical_logits :: "real tensor \<Rightarrow> error + distribution" where
  "Categorical_logits t =
     (if shape t = [] then Inl ValueError
      else Inr (Categorical
        \<lparr>shape = shape t,
         entry = (\<lambda>idx. entry t idx
                    - ln (sum_list (map (\<lambda>k. exp (entry t (butlast idx @ [k]))) [0..<last (shape t)]))),
         requires_grad = requires_grad t\<rparr>))"

definition Normal_init :: "real tensor \<Rightarrow> real tensor \<Rightarrow> error + distribution" where
  "Normal_init loc scale =
     (case broadcast_shapes (shape loc) (shape scale) of
        None \<Rightarrow> Inl RuntimeError
      | Some s \<Rightarrow>
          if list_ex (\<lambda>idx. entry (expand s scale) idx \<le> 0) (indices s) then Inl ValueError
          else Inr (Normal (expand s loc) (expand s scale)))"

definition batch_shape :: "distribution \<Rightarrow> nat list" where
  "batch_shape d = (case d of Categorical lg \<Rightarrow> butlast (shape lg) | Normal loc scale \<Rightarrow> shape loc)"

text \<open>
  \<^verbatim>\<open>dist.log_prob(value)\<close>. The value is validated first: its shape must broadcast with
  the batch shape and, for a categorical distribution, every entry must be an integer
  in \<open>[0, K - 1]\<close>. The result has the broadcast shape: one entry per batch element for
  a categorical distribution, one entry per batch element and action dimension for a
  normal one.
\<close>

definition log_prob :: "distribution \<Rightarrow> real tensor \<Rightarrow> error + real tensor" where
  "log_prob d val =
     (case broadcast_shapes (shape val) (batch_shape d) of
        None \<Rightarrow> Inl ValueError
      | Some s \<Rightarrow>
         (case d of
            Categorical lg \<Rightarrow>
              if list_ex (\<lambda>idx. \<not> (real_of_int \<lfloor>entry val idx\<rfloor> = entry val idx \<and> 0 \<le> entry val idx
                                   \<and> entry val idx \<le> real (last (shape lg)) - 1))
                   (indices (shape val))
              then Inl ValueError
              else Inr \<lparr>shape = s,
                        entry = (\<lambda>idx. entry lg (expand_index (butlast (shape lg)) idx
                                          @ [nat \<lfloor>entry val (expand_index (shape val) idx)\<rfloor>])),
                        requires_grad = requires_grad lg\<rparr>
          | Normal loc scale \<Rightarrow>
              Inr \<lparr>shape = s,
                   entry = (\<lambda>idx. let v = entry (expand s val) idx; m = entry (expand s loc) idx;
                                    sd = entry (expand s scale) idx
                                in - ((v - m) * (v - m)) / (2 * (sd * sd)) - ln sd - ln (sqrt (2 * pi))),
                   requires_grad = (requires_grad loc \<or> requires_grad scale)\<rparr>))"

text \<open>
  Sampling draws from the random generator of the library; the draws are the explicit
  argument \<open>noise\<close>, one per batch element: a uniform number for a categorical
  distribution (the category is found by walking the cumulative probabilities), a
  standard normal number for a normal one. Samples never carry history.
\<close>

fun pick :: "real list \<Rightarrow> real \<Rightarrow> nat" where
  "pick [] u = 0"
| "pick [p] u = 0"
| "pick (p # q # ps) u = (if u < p then 0 else Suc (pick (q # ps) (u - p)))"

definition sample :: "distribution \<Rightarrow> (nat list \<Rightarrow> real) \<Rightarrow> error + ndarray" where
  "sample d noise =
     (case d of
        Categorical lg \<Rightarrow>
          if last (shape lg) = 0 then Inl RuntimeError
          else Inr (Int_Array
            \<lparr>shape = butlast (shape lg),
             entry = (\<lambda>idx. int (pick (map (\<lambda>k. exp (entry lg (idx @ [k]))) [0..<last (shape lg)])
                                    (noise idx))),
             requires_grad = False\<rparr>)
      | Normal loc scale \<Rightarrow>
          Inr (Float_Array
            \<lparr>shape = shape loc,
             entry = (\<lambda>idx. entry loc idx + entry scale idx * noise idx),
             requires_grad = False\<rparr>))"

section \<open>The policy (policies.py)\<close>

text \<open>
  An attribute that the constructor does not set is \<open>None\<close>. \<open>grad\<close> is the content of
  the parameters' \<^verbatim>\<open>.grad\<close> buffers, as for the critic.
\<close>

record MLPPolicy =
  discrete :: bool
  logits_net :: "mlp option"
  mean_net :: "mlp option"
  logstd :: "real list option"
  optimizer :: adam
  grad :: "real list option"

definition MLPPolicy_init ::
  "(real \<Rightarrow> real) \<Rightarrow> (nat \<Rightarrow> real) \<Rightarrow> int \<Rightarrow> int \<Rightarrow> bool \<Rightarrow> int \<Rightarrow> int \<Rightarrow> real
     \<Rightarrow> error + MLPPolicy" where
  "MLPPolicy_init act init ac_dim ob_dim discrete' n_layers layer_size learning_rate =
     (if discrete' then
        (case build_mlp act init ob_dim ac_dim n_layers layer_size of
           Inl e \<Rightarrow> Inl e
         | Inr net \<Rightarrow>
            (case Adam (params net) learning_rate of
               Inl e \<Rightarrow> Inl e
             | Inr opt \<Rightarrow>
                 Inr \<lparr>discrete = discrete', logits_net = Some net, mean_net = None, logstd = None,
                      optimizer = opt, grad = None\<rparr>))
      else
        (case build_mlp act init ob_dim ac_dim n_layers layer_size of
           Inl e \<Rightarrow> Inl e
         | Inr net \<Rightarrow>
            if ac_dim < 0 then Inl RuntimeError
            else let ls = replicate (nat ac_dim) (0::real) in
              (case Adam (ls @ params net) learning_rate of
                 Inl e \<Rightarrow> Inl e
               | Inr opt \<Rightarrow>
                   Inr \<lparr>discrete = discrete', logits_net = None, mean_net = Some net,
                        logstd = Some ls, optimizer = opt, grad = None\<rparr>)))"

text \<open>
  \<^verbatim>\<open>MLPPolicy.forward\<close>, under the gradient mode \<open>grad_enabled\<close> of the caller.
\<close>

definition forward :: "bool \<Rightarrow> MLPPolicy \<Rightarrow> real tensor \<Rightarrow> error + distribution" where
  "forward grad_enabled self obs =
     (if discrete self then
        (case logits_net self of
           None \<Rightarrow> Inl AttributeError
         | Some net \<Rightarrow>
            (case mlp_apply grad_enabled net obs of
               Inl e \<Rightarrow> Inl e
             | Inr probs \<Rightarrow> Categorical_logits probs))
      else
        (case mean_net self of
           None \<Rightarrow> Inl AttributeError
         | Some net \<Rightarrow>
            (case mlp_apply grad_enabled net obs of
               Inl e \<Rightarrow> Inl e
             | Inr means \<Rightarrow>
                (case logstd self of
                   None \<Rightarrow> Inl AttributeError
                 | Some ls \<Rightarrow> Normal_init means (vector grad_enabled (map exp ls))))))"

text \<open>
  \<^verbatim>\<open>MLPPolicy.get_action\<close>, decorated with \<^verbatim>\<open>@torch.no_grad()\<close>: the forward pass
  runs with gradient tracking disabled. The result is the policy after the call and
  either the exception raised or the action.
\<close>

definition get_action ::
  "MLPPolicy \<Rightarrow> (nat list \<Rightarrow> real) \<Rightarrow> ndarray \<Rightarrow> MLPPolicy \<times> (error + ndarray)" where
  "get_action self noise obs =
     (let obs = from_numpy obs in
      case forward False self obs of
        Inl e \<Rightarrow> (self, Inl e)
      | Inr dist' \<Rightarrow>
         (case sample dist' noise of
            Inl e \<Rightarrow> (self, Inl e)
          | Inr action \<Rightarrow> (self, Inr (to_numpy action))))"

text \<open>\<^verbatim>\<open>MLPPolicy.update\<close> of the base class.\<close>

definition MLPPolicy_update ::
  "MLPPolicy \<Rightarrow> ndarray \<Rightarrow> ndarray \<Rightarrow> ndarray
     \<Rightarrow> MLPPolicy \<times> (error + (string \<times> real option) list)" where
  "MLPPolicy_update self obs actions advantages = (self, Inl NotImplementedError)"

text \<open>
  The parameters the optimizer was given, as one flat vector: the logits network's, or
  the log-std followed by the mean network's.
\<close>

definition parameters :: "MLPPolicy \<Rightarrow> real list" where
  "parameters self =
     (if discrete self then (case logits_net self of None \<Rightarrow> [] | Some net \<Rightarrow> params net)
      else (case logstd self of None \<Rightarrow> [] | Some ls \<Rightarrow> ls)
           @ (case mean_net self of None \<Rightarrow> [] | Some net \<Rightarrow> params net))"

definition set_parameters :: "MLPPolicy \<Rightarrow> real list \<Rightarrow> MLPPolicy" where
  "set_parameters self w =
     (if discrete self then
        self\<lparr>logits_net := map_option (\<lambda>net. net\<lparr>params := w\<rparr>) (logits_net self)\<rparr>
      else
        (let n = (case logstd self of None \<Rightarrow> 0 | Some ls \<Rightarrow> length ls) in
         self\<lparr>logstd := map_option (\<lambda>ls. take n w) (logstd self),
              mean_net := map_option (\<lambda>net. net\<lparr>params := drop n w\<rparr>) (mean_net self)\<rparr>))"

text \<open>
  The scalar loss of \<^verbatim>\<open>MLPPolicyPG.update\<close>:
  \<^verbatim>\<open>-(log_probs * advantages.unsqueeze(-1)).mean()\<close>, on the tensors of the arrays.
\<close>

definition pg_loss :: "MLPPolicy \<Rightarrow> real tensor \<Rightarrow> real tensor \<Rightarrow> real tensor \<Rightarrow> error + real option" where
  "pg_loss self obs actions advantages =
     (case forward True self obs of
        Inl e \<Rightarrow> Inl e
      | Inr dists \<Rightarrow>
         (case log_prob dists actions of
            Inl e \<Rightarrow> Inl e
          | Inr log_probs \<Rightarrow>
             (case binop (*) log_probs (unsqueeze_last advantages) of
                Inl e \<Rightarrow> Inl e
              | Inr weighted \<Rightarrow> Inr (map_option uminus (mean weighted)))))"

text \<open>
  \<^verbatim>\<open>MLPPolicyPG.update\<close>. \<^verbatim>\<open>obs.shape[1]\<close> is read first and needs an array of rank 2 at
  least. As for the critic, the gradient \<open>g\<close> that \<^verbatim>\<open>loss.backward()\<close> computes is an
  input.
\<close>

definition MLPPolicyPG_update ::
  "MLPPolicy \<Rightarrow> ndarray \<Rightarrow> ndarray \<Rightarrow> ndarray \<Rightarrow> real list
     \<Rightarrow> MLPPolicy \<times> (error + (string \<times> real option) list)" where
  "MLPPolicyPG_update self obs actions advantages g =
     (let obs = from_numpy obs in
      if length (shape obs) < 2 then (self, Inl IndexError)
      else
        let actions = from_numpy actions;
            advantages = from_numpy advantages;
            self = self\<lparr>MLPPolicy.grad := None\<rparr>
        in case pg_loss self obs actions advantages of
             Inl e \<Rightarrow> (self, Inl e)
           | Inr loss \<Rightarrow>
               let self = self\<lparr>MLPPolicy.grad := Some g\<rparr>;
                   (w, opt) = adam_step (MLPPolicy.optimizer self) (parameters self) g;
                   self = (set_parameters self w)\<lparr>MLPPolicy.optimizer := opt\<rparr>
               in (self, Inr [(''Actor Loss'', loss)]))"

section \<open>Gradients\<close>

text \<open>
  \<open>g\<close> is the gradient of \<open>L\<close> at the parameter vector \<open>w\<close>: entry \<open>i\<close> of \<open>g\<close> is the
  derivative of \<open>L\<close> in the \<open>i\<close>-th parameter, the others held fixed.
\<close>

definition is_gradient :: "(real list \<Rightarrow> real) \<Rightarrow> real list \<Rightarrow> real list \<Rightarrow> bool" where
  "is_gradient L w g \<longleftrightarrow>
     length g = length w \<and>
     (\<forall>i<length w. ((\<lambda>t. L (w[i := t])) has_real_derivative g ! i) (at (w ! i)))"

text \<open>The policy-gradient loss as a function of the parameter vector (0 where it is undefined).\<close>

definition pg_loss_at :: "MLPPolicy \<Rightarrow> ndarray \<Rightarrow> ndarray \<Rightarrow> ndarray \<Rightarrow> real list \<Rightarrow> real" where
  "pg_loss_at self obs actions advantages w =
     (case pg_loss (set_parameters self w) (from_numpy obs) (from_numpy actions)
             (from_numpy advantages) of
        Inr (Some l) \<Rightarrow> l
      | _ \<Rightarrow> 0)"

section \<open>Specification vocabulary and example inputs\<close>

text \<open>A network maps \<open>i\<close> input features to \<open>o\<close> outputs.\<close>

definition net_io :: "mlp \<Rightarrow> nat \<Rightarrow> nat \<Rightarrow> bool" where
  "net_io net i o' \<longleftrightarrow> dims net \<noteq> [] \<and> fst (hd (dims net)) = i \<and> snd (last (dims net)) = o'"

text \<open>
  The mean squared error as the specification words it: one squared error per
  observation, averaged over the batch.
\<close>

definition spec_mse :: "real list \<Rightarrow> real list \<Rightarrow> real" where
  "spec_mse ys ts = sum_list (map (\<lambda>(y, t). (y - t) * (y - t)) (zip ys ts)) / real (length ys)"

text \<open>The entries of a tensor, in row-major order.\<close>

definition entries :: "'a tensor \<Rightarrow> 'a list" where
  "entries t = map (entry t) (indices (shape t))"

text \<open>Array literals: \<^verbatim>\<open>np.array([[...], ...])\<close> with \<open>n\<close> rows and \<open>m\<close> columns, and \<^verbatim>\<open>np.array([...])\<close>.\<close>

definition matrix :: "nat \<Rightarrow> nat \<Rightarrow> real list list \<Rightarrow> ndarray" where
  "matrix n m rows =
     Float_Array \<lparr>shape = [n, m], entry = (\<lambda>idx. rows ! hd idx ! hd (tl idx)), requires_grad = False\<rparr>"

definition array1 :: "real list \<Rightarrow> ndarray" where
  "array1 xs = Float_Array (vector False xs)"

text \<open>
  The critic \<^verbatim>\<open>ValueCritic(ob_dim=1, n_layers=0, layer_size=8, learning_rate=0.1)\<close> whose
  single affine layer was initialised with weight 1 and bias 0.
\<close>

definition identity_critic :: ValueCritic where
  "identity_critic =
     \<lparr>network = \<lparr>activation = (\<lambda>x. x), dims = [(1, 1)], params = [1, 0]\<rparr>,
      optimizer = \<lparr>lr = 1 / 10, step_count = 0, exp_avg = [0, 0], exp_avg_sq = [0, 0]\<rparr>,
      grad = None\<rparr>"

text \<open>
  The policy-gradient loss as the specification words it: the negative mean, over the
  batch, of the log-probability of the taken action times the advantage, one term per
  example.
\<close>

definition spec_pg_loss :: "real list \<Rightarrow> real list \<Rightarrow> real" where
  "spec_pg_loss lps advs = - (sum_list (map (\<lambda>(l, a). l * a) (zip lps advs)) / real (length lps))"

text \<open>The tensor \<^verbatim>\<open>log_probs\<close> of \<^verbatim>\<open>MLPPolicyPG.update\<close>.\<close>

definition log_probs :: "MLPPolicy \<Rightarrow> ndarray \<Rightarrow> ndarray \<Rightarrow> error + real tensor" where
  "log_probs self obs actions =
     (case forward True self (from_numpy obs) of
        Inl e \<Rightarrow> Inl e
      | Inr dists \<Rightarrow> log_prob dists (from_numpy actions))"

text \<open>
  The states of a policy constructed with the given \<open>ac_dim\<close>, \<open>ob_dim\<close> and \<open>discrete\<close>:
  the state after construction, and the state after any call of its methods.
\<close>

inductive policy_state :: "int \<Rightarrow> int \<Rightarrow> bool \<Rightarrow> MLPPolicy \<Rightarrow> bool"
  for ac_dim :: int and ob_dim :: int and discrete' :: bool where
  constructed:
    "MLPPolicy_init act init ac_dim ob_dim discrete' n_layers layer_size learning_rate = Inr self
     \<Longrightarrow> policy_state ac_dim ob_dim discrete' self"
| sampled:
    "policy_state ac_dim ob_dim discrete' self
     \<Longrightarrow> policy_state ac_dim ob_dim discrete' (fst (get_action self noise obs))"
| base_updated:
    "policy_state ac_dim ob_dim discrete' self
     \<Longrightarrow> policy_state ac_dim ob_dim discrete' (fst (MLPPolicy_update self obs actions advantages))"
| updated:
    "policy_state ac_dim ob_dim discrete' self
     \<Longrightarrow> policy_state ac_dim ob_dim discrete' (fst (MLPPolicyPG_update self obs actions advantages g))"

text \<open>The same for a critic constructed with the given \<open>ob_dim\<close>.\<close>

inductive critic_state :: "int \<Rightarrow> ValueCritic \<Rightarrow> bool" for ob_dim :: int where
  critic_constructed:
    "ValueCritic_init act init ob_dim n_layers layer_size learning_rate = Inr self
     \<Longrightarrow> critic_state ob_dim self"
| critic_updated:
    "critic_state ob_dim self \<Longrightarrow> critic_state ob_dim (fst (ValueCritic_update self obs q_values g))"

text \<open>
  Which parameters a policy has and their sizes: the flag, and for each of the logits
  network, the mean network and the log-std whether it exists, with the layer sizes and
  the number of parameters.
\<close>

definition layout ::
  "MLPPolicy \<Rightarrow> bool \<times> ((nat \<times> nat) list \<times> nat) option \<times> ((nat \<times> nat) list \<times> nat) option \<times> nat option" where
  "layout self =
     (discrete self,
      map_option (\<lambda>net. (dims net, length (params net))) (logits_net self),
      map_option (\<lambda>net. (dims net, length (params net))) (mean_net self),
      map_option length (logstd self))"

text \<open>The invariant of construction: exactly the parameters of the mode exist, with matching sizes.\<close>

definition policy_inv :: "nat \<Rightarrow> nat \<Rightarrow> bool \<Rightarrow> MLPPolicy \<Rightarrow> bool" where
  "policy_inv ob ac d self \<longleftrightarrow>
     discrete self = d \<and>
     (if d then
        (case logits_net self of None \<Rightarrow> False | Some net \<Rightarrow> net_io net ob ac)
        \<and> mean_net self = None \<and> logstd self = None
      else
        logits_net self = None
        \<and> (case mean_net self of None \<Rightarrow> False | Some net \<Rightarrow> net_io net ob ac)
        \<and> (case logstd self of None \<Rightarrow> False | Some ls \<Rightarrow> length ls = ac))"

text \<open>Whether the parameters of a distribution carry differentiation history.\<close>

definition tracked :: "distribution \<Rightarrow> bool" where
  "tracked d =
     (case d of
        Categorical lg \<Rightarrow> requires_grad lg
      | Normal loc scale \<Rightarrow> requires_grad loc \<or> requires_grad scale)"

text \<open>
  \<^verbatim>\<open>MLPPolicyPG(ac_dim=2, ob_dim=1, discrete=False, n_layers=0, layer_size=8,
  learning_rate=0.1)\<close> with all weights and biases initialised to 0.
\<close>

definition gauss_policy :: MLPPolicy where
  "gauss_policy =
     \<lparr>discrete = False, logits_net = None,
      mean_net = Some \<lparr>activation = (\<lambda>x. x), dims = [(1, 2)], params = [0, 0, 0, 0]\<rparr>,
      logstd = Some [0, 0],
      optimizer = \<lparr>lr = 1 / 10, step_count = 0, exp_avg = [0, 0, 0, 0, 0, 0],
                   exp_avg_sq = [0, 0, 0, 0, 0, 0]\<rparr>,
      grad = None\<rparr>"

text \<open>The same with \<^verbatim>\<open>discrete=True\<close>: two actions with equal logits.\<close>

definition coin_policy :: MLPPolicy where
  "coin_policy =
     \<lparr>discrete = True,
      logits_net = Some \<lparr>activation = (\<lambda>x. x), dims = [(1, 2)], params = [0, 0, 0, 0]\<rparr>,
      mean_net = None, logstd = None,
      optimizer = \<lparr>lr = 1 / 10, step_count = 0, exp_avg = [0, 0, 0, 0],
                   exp_avg_sq = [0, 0, 0, 0]\<rparr>,
      grad = None\<rparr>"

text \<open>The index that a dimension of size \<open>n\<close> reads when broadcast: 0 when \<open>n\<close> is 1.\<close>

definition squash :: "nat \<times> nat \<Rightarrow> nat" where
  "squash = (\<lambda>(n, i). if n = 1 then 0 else i)"

text \<open>
  \<^verbatim>\<open>MLPPolicyPG(ac_dim=1, ob_dim=1, discrete=False, n_layers=0, layer_size=8,
  learning_rate=0.1)\<close> with weight and bias initialised to 0, and its state after one
  update on the observation 0, the action 0 and the advantage 1.
\<close>

definition unit_policy :: MLPPolicy where
  "unit_policy =
     \<lparr>discrete = False, logits_net = None,
      mean_net = Some \<lparr>activation = (\<lambda>x. x), dims = [(1, 1)], params = [0, 0]\<rparr>,
      logstd = Some [0],
      optimizer = \<lparr>lr = 1 / 10, step_count = 0, exp_avg = [0, 0, 0], exp_avg_sq = [0, 0, 0]\<rparr>,
      grad = None\<rparr>"

definition momentum_policy :: MLPPolicy where
  "momentum_policy =
     fst (MLPPolicyPG_update unit_policy (matrix 1 1 [[0]]) (matrix 1 1 [[0]]) (array1 [1]) [1, 0, 0])"

section \<open>Sums over the entries of a tensor\<close>

lemma indices_1: "indices [n] = map (\<lambda>i. [i]) [0..<n]"
  by (induction n) simp_all

lemma sum_list_upt: "sum_list (map f [0..<n]) = (\<Sum>i<n. f i)"
  by (induction n) simp_all

lemma sum_list_concat_map:
  "sum_list (map f (concat (map g xs))) = sum_list (map (\<lambda>x. sum_list (map f (g x))) xs)"
  by (induction xs) simp_all

lemma sum_indices_1: "sum_list (map f (indices [n])) = (\<Sum>i<n. f [i])"
  by (simp add: indices_1 comp_def sum_list_upt)

lemma sum_indices_2: "sum_list (map f (indices [n, m])) = (\<Sum>i<n. \<Sum>j<m. f [i, j])"
  by (simp add: indices_1 sum_list_concat_map comp_def sum_list_upt)

lemma mean_2d:
  assumes "shape t = [n, m]" "0 < n" "0 < m"
  shows "mean t = Some ((\<Sum>i<n. \<Sum>j<m. entry t [i, j]) / real (n * m))"
  using assms unfolding mean_def sum_all_def numel_def
  by (simp only: sum_indices_2) simp

lemma sum_zip_map_upt:
  "sum_list (map (\<lambda>(y, t). f y t) (zip (map a [0..<n]) (map b [0..<n]))) = (\<Sum>i<n. f (a i) (b i))"
proof -
  have "zip (map a [0..<n]) (map b [0..<n]) = map (\<lambda>i. (a i, b i)) [0..<n]"
    by (simp add: zip_map_map zip_same_conv_map)
  then show ?thesis by (simp add: comp_def sum_list_upt)
qed

section \<open>Broadcasting of the shapes that occur\<close>

lemma broadcast_same2: "broadcast_shapes [n, m] [n, m] = Some [n, m]"
  by (simp add: broadcast_shapes_def)

lemma expand_index_22: "i < n \<Longrightarrow> j < m \<Longrightarrow> expand_index [n, m] [i, j] = [i, j]"
  by (auto simp: expand_index_def)

lemma expand_index_21: "i < n \<Longrightarrow> expand_index [n, Suc 0] [i, j] = [i, 0]"
  by (auto simp: expand_index_def)

lemma expand_index_12: "j < m \<Longrightarrow> expand_index [m] [i, j] = [j]"
  by (auto simp: expand_index_def)

section \<open>Networks\<close>

lemma layer_dims_ne: "layer_dims i n s o' \<noteq> []"
  by (induction i n s o' rule: layer_dims.induct) simp_all

lemma layer_dims_hd: "fst (hd (layer_dims i n s o')) = i"
  by (induction i n s o' rule: layer_dims.induct) simp_all

lemma layer_dims_last: "snd (last (layer_dims i n s o')) = o'"
  by (induction i n s o' rule: layer_dims.induct) (simp_all add: layer_dims_ne)

lemma build_mlp_dims:
  assumes "build_mlp act init i o' n s = Inr net"
  shows "net_io net (nat i) (nat o') \<and> 0 \<le> i \<and> 0 \<le> o'
         \<and> length (params net) = num_params (dims net)"
proof -
  let ?ds = "layer_dims i (nat n) s o'"
  let ?nds = "map (\<lambda>(i, o'). (nat i, nat o')) ?ds"
  from assms have ok: "\<not> list_ex (\<lambda>(i, o'). i \<le> 0 \<or> o' \<le> 0) ?ds"
    and net: "net = \<lparr>activation = act, dims = ?nds, params = map init [0..<num_params ?nds]\<rparr>"
    by (auto simp: build_mlp_def Let_def split: if_splits)
  have ne: "?ds \<noteq> []" by (rule layer_dims_ne)
  have h: "fst (hd ?nds) = nat i"
    using ne layer_dims_hd[of i "nat n" s o'] by (cases ?ds) (auto simp: case_prod_beta)
  have l: "snd (last ?nds) = nat o'"
    using ne layer_dims_last[of i "nat n" s o'] by (simp add: last_map case_prod_beta)
  from ok have pos: "0 < fst x \<and> 0 < snd x" if "x \<in> set ?ds" for x
    using that by (auto simp: list_ex_iff case_prod_beta not_le)
  have "hd ?ds \<in> set ?ds" "last ?ds \<in> set ?ds" using ne by simp_all
  then have "0 \<le> fst (hd ?ds)" "0 \<le> snd (last ?ds)"
    using pos[of "hd ?ds"] pos[of "last ?ds"] by simp_all
  then have "0 \<le> i" "0 \<le> o'" by (simp_all add: layer_dims_hd layer_dims_last)
  with h l ne net show ?thesis by (simp add: net_io_def)
qed

lemma mlp_apply_2d:
  assumes "net_io net i o'" "shape x = [n, i]"
  shows "\<exists>y. mlp_apply ge net x = Inr y \<and> shape y = [n, o'] \<and> requires_grad y = ge"
  using assms by (cases "dims net") (auto simp: net_io_def mlp_apply_def)

section \<open>Invariants of the states\<close>

lemma adam_step_length: "length (fst (adam_step opt w g)) = length w"
  by (simp add: adam_step_def Let_def)

lemma adam_step_lengthD: "adam_step opt w g = (w', opt') \<Longrightarrow> length w' = length w"
  by (auto simp: adam_step_def Let_def)

lemma critic_state_net_io:
  "critic_state ob_dim self \<Longrightarrow> net_io (network self) (nat ob_dim) 1"
proof (induction rule: critic_state.induct)
  case (critic_constructed act init n_layers layer_size learning_rate self)
  then show ?case
    using build_mlp_dims[of act init ob_dim 1 n_layers layer_size]
    by (auto simp: ValueCritic_init_def split: sum.splits)
next
  case (critic_updated self obs q_values g)
  then show ?case
    by (auto simp: ValueCritic_update_def Let_def net_io_def split: sum.splits prod.splits)
qed

lemma MLPPolicy_init_inv:
  assumes "MLPPolicy_init act init ac_dim ob_dim d n_layers layer_size learning_rate = Inr self"
  shows "policy_inv (nat ob_dim) (nat ac_dim) d self"
proof (cases d)
  case True
  with assms show ?thesis
    using build_mlp_dims[of act init ob_dim ac_dim n_layers layer_size]
    by (auto simp: MLPPolicy_init_def policy_inv_def split: sum.splits)
next
  case False
  with assms show ?thesis
    using build_mlp_dims[of act init ob_dim ac_dim n_layers layer_size]
    by (auto simp: MLPPolicy_init_def policy_inv_def Let_def split: sum.splits if_splits)
qed

lemma get_action_state: "fst (get_action self noise obs) = self"
  by (simp add: get_action_def Let_def split: sum.splits)

lemma set_parameters_inv:
  "policy_inv ob ac d self \<Longrightarrow> length w = length (parameters self)
   \<Longrightarrow> policy_inv ob ac d (set_parameters self w)"
  by (auto simp: policy_inv_def set_parameters_def parameters_def net_io_def Let_def
      split: option.splits if_splits)

lemma MLPPolicyPG_update_inv:
  assumes "policy_inv ob ac d self"
  shows "policy_inv ob ac d (fst (MLPPolicyPG_update self obs actions advantages g))"
proof -
  have g0: "policy_inv ob ac d (self\<lparr>MLPPolicy.grad := x\<rparr>)" for x
    using assms by (simp add: policy_inv_def)
  have p: "parameters (self\<lparr>MLPPolicy.grad := x\<rparr>) = parameters self" for x
    by (simp add: parameters_def)
  have s: "policy_inv ob ac d ((set_parameters (self\<lparr>MLPPolicy.grad := x\<rparr>) w)\<lparr>MLPPolicy.optimizer := opt\<rparr>)"
    if "length w = length (parameters self)" for x w opt
    using set_parameters_inv[OF g0[of x], of w] that by (simp add: p policy_inv_def)
  show ?thesis
    using g0 assms
    by (auto simp: MLPPolicyPG_update_def Let_def p intro!: s dest: adam_step_lengthD
        split: sum.splits prod.splits)
qed

lemma policy_state_inv:
  "policy_state ac_dim ob_dim d self \<Longrightarrow> policy_inv (nat ob_dim) (nat ac_dim) d self"
proof (induction rule: policy_state.induct)
  case (constructed act init n_layers layer_size learning_rate self)
  then show ?case by (rule MLPPolicy_init_inv)
next
  case (sampled self noise obs)
  then show ?case by (simp add: get_action_state)
next
  case (base_updated self obs actions advantages)
  then show ?case by (simp add: MLPPolicy_update_def)
next
  case (updated self obs actions advantages g)
  from updated.IH show ?case by (rule MLPPolicyPG_update_inv)
qed


section \<open>Policy loss\<close>

lemma set_indices_1: "set (indices [n]) = {[i] | i. i < n}"
  by (auto simp: indices_1)

lemma set_indices_2: "set (indices [n, m]) = {[i, j] | i j. i < n \<and> j < m}"
  by (auto simp: indices_1)

lemma broadcast_21_vec: "broadcast_shapes [n, m] [m] = Some [n, m]"
  by (simp add: broadcast_shapes_def)

lemma broadcast_2_col: "broadcast_shapes [n, m] [n, Suc 0] = Some [n, m]"
  by (simp add: broadcast_shapes_def)

lemma broadcast_1_col: "broadcast_shapes [n] [m, Suc 0] = Some [m, n]"
  by (simp add: broadcast_shapes_def)

lemma broadcast_same1: "broadcast_shapes [n] [n] = Some [n]"
  by (simp add: broadcast_shapes_def)

lemma expand_index_11: "i < n \<Longrightarrow> expand_index [n] [i] = [i]"
  by (auto simp: expand_index_def)

lemma forward_grad: "forward ge (self\<lparr>MLPPolicy.grad := x\<rparr>) = forward ge self"
  by (rule ext) (simp add: forward_def split: option.split sum.split)

lemma snd_MLPPolicyPG_update:
  "snd (MLPPolicyPG_update self obs actions advantages g) =
     (if length (shape (from_numpy obs)) < 2 then Inl IndexError
      else case pg_loss self (from_numpy obs) (from_numpy actions) (from_numpy advantages) of
             Inl e \<Rightarrow> Inl e
           | Inr loss \<Rightarrow> Inr [(''Actor Loss'', loss)])"
proof -
  have "pg_loss (self\<lparr>MLPPolicy.grad := None\<rparr>) = pg_loss self"
    by (intro ext) (simp add: pg_loss_def forward_grad)
  then show ?thesis
    by (simp add: MLPPolicyPG_update_def Let_def split: sum.split prod.split)
qed

lemma forward_continuous:
  assumes inv: "policy_inv ob a False self" and sx: "shape x = [n, ob]"
  shows "\<exists>loc scale. forward ge self x = Inr (Normal loc scale) \<and> shape loc = [n, a]
           \<and> shape scale = [n, a]"
proof -
  from inv obtain net ls where c: "\<not> discrete self" and mn: "mean_net self = Some net"
    and io: "net_io net ob a" and ls: "logstd self = Some ls" and len: "length ls = a"
    by (auto simp: policy_inv_def split: option.splits)
  from mlp_apply_2d[OF io sx, of ge] obtain means where
    m: "mlp_apply ge net x = Inr means" and sm: "shape means = [n, a]" by auto
  let ?std = "vector ge (map exp ls)"
  have ss: "shape ?std = [a]" by (simp add: vector_def len)
  have pos: "\<not> list_ex (\<lambda>idx. entry (expand [n, a] ?std) idx \<le> 0) (indices [n, a])"
    by (auto simp: list_ex_iff set_indices_2 expand_def vector_def len expand_index_12 not_le)
  have "Normal_init means ?std = Inr (Normal (expand [n, a] means) (expand [n, a] ?std))"
    using pos by (simp add: Normal_init_def sm ss broadcast_21_vec)
  then show ?thesis
    using c mn ls m by (simp add: forward_def expand_def)
qed

lemma pg_loss_continuous:
  assumes inv: "policy_inv ob a False self"
    and so: "shape (from_numpy obs) = [n, ob]"
    and sa: "shape (from_numpy actions) = [n, a]"
    and sv: "shape (from_numpy advantages) = [n]"
    and n: "0 < n" and a: "0 < a"
  shows "\<exists>lp. log_probs self obs actions = Inr lp \<and> shape lp = [n, a] \<and>
     snd (MLPPolicyPG_update self obs actions advantages g) =
       Inr [(''Actor Loss'',
             Some (spec_pg_loss (map (\<lambda>i. \<Sum>d<a. entry lp [i, d]) [0..<n])
                                (map (\<lambda>i. entry (from_numpy advantages) [i]) [0..<n]) / real a))]"
proof -
  let ?adv = "from_numpy advantages"
  from forward_continuous[OF inv so, of True] obtain loc scale where
    f: "forward True self (from_numpy obs) = Inr (Normal loc scale)" and sl: "shape loc = [n, a]"
    by auto
  obtain lp where lp: "log_prob (Normal loc scale) (from_numpy actions) = Inr lp"
    and slp: "shape lp = [n, a]"
    by (simp add: log_prob_def batch_shape_def sl sa broadcast_same2)
  obtain w where w: "binop (*) lp (unsqueeze_last ?adv) = Inr w" and sw: "shape w = [n, a]"
    and ew: "\<And>i d. i < n \<Longrightarrow> d < a \<Longrightarrow> entry w [i, d] = entry lp [i, d] * entry ?adv [i]"
    by (simp add: binop_def slp sv unsqueeze_last_def broadcast_2_col expand_def
        expand_index_22 expand_index_21)
  have "mean w = Some ((\<Sum>i<n. \<Sum>d<a. entry w [i, d]) / real (n * a))"
    using sw n a by (intro mean_2d)
  also have "(\<Sum>i<n. \<Sum>d<a. entry w [i, d]) = (\<Sum>i<n. (\<Sum>d<a. entry lp [i, d]) * entry ?adv [i])"
    by (intro sum.cong refl) (simp add: ew sum_distrib_right)
  finally have m: "mean w = Some ((\<Sum>i<n. (\<Sum>d<a. entry lp [i, d]) * entry ?adv [i]) / real (n * a))" .
  have "snd (MLPPolicyPG_update self obs actions advantages g)
      = Inr [(''Actor Loss'', Some (- ((\<Sum>i<n. (\<Sum>d<a. entry lp [i, d]) * entry ?adv [i]) / real (n * a))))]"
    by (simp add: snd_MLPPolicyPG_update so pg_loss_def f lp w m)
  then show ?thesis
    using lp slp f n
    by (simp add: log_probs_def spec_pg_loss_def sum_zip_map_upt)
qed

lemma forward_discrete:
  assumes inv: "policy_inv ob k True self" and sx: "shape x = [n, ob]"
  shows "\<exists>lg. forward ge self x = Inr (Categorical lg) \<and> shape lg = [n, k]"
proof -
  from inv obtain net where c: "discrete self" and mn: "logits_net self = Some net"
    and io: "net_io net ob k"
    by (auto simp: policy_inv_def split: option.splits)
  from mlp_apply_2d[OF io sx, of ge] obtain y where
    m: "mlp_apply ge net x = Inr y" and sm: "shape y = [n, k]" by auto
  show ?thesis using c mn m sm by (simp add: forward_def Categorical_logits_def)
qed

lemma pg_loss_discrete:
  assumes inv: "policy_inv ob k True self"
    and so: "shape (from_numpy obs) = [n, ob]"
    and sa: "shape (from_numpy actions) = [n]"
    and va: "\<forall>j<n. \<exists>c<k. entry (from_numpy actions) [j] = real c"
    and sv: "shape (from_numpy advantages) = [m]"
    and n: "0 < n" and m: "0 < m"
  shows "\<exists>lp. log_probs self obs actions = Inr lp \<and> shape lp = [n] \<and>
     snd (MLPPolicyPG_update self obs actions advantages g) =
       Inr [(''Actor Loss'',
             Some (- ((\<Sum>i<m. \<Sum>j<n. entry lp [j] * entry (from_numpy advantages) [i]) / real (m * n))))]"
proof -
  let ?adv = "from_numpy advantages" and ?act = "from_numpy actions"
  from forward_discrete[OF inv so, of True] obtain lg where
    f: "forward True self (from_numpy obs) = Inr (Categorical lg)" and sl: "shape lg = [n, k]"
    by auto
  have valid: "\<not> list_ex (\<lambda>idx. \<not> (real_of_int \<lfloor>entry ?act idx\<rfloor> = entry ?act idx \<and> 0 \<le> entry ?act idx
                                   \<and> entry ?act idx \<le> real (last (shape lg)) - 1))
                   (indices (shape ?act))"
  proof -
    have "real_of_int \<lfloor>entry ?act [j]\<rfloor> = entry ?act [j] \<and> 0 \<le> entry ?act [j]
          \<and> entry ?act [j] \<le> real k - 1" if "j < n" for j
    proof -
      from va that obtain c where "c < k" "entry ?act [j] = real c" by auto
      then show ?thesis by (simp add: of_nat_diff)
    qed
    then show ?thesis by (auto simp: list_ex_iff sa sl set_indices_1)
  qed
  obtain lp where lp: "log_prob (Categorical lg) ?act = Inr lp" and slp: "shape lp = [n]"
    using valid by (simp add: log_prob_def batch_shape_def sl sa broadcast_same1)
  obtain w where w: "binop (*) lp (unsqueeze_last ?adv) = Inr w" and sw: "shape w = [m, n]"
    and ew: "\<And>i j. i < m \<Longrightarrow> j < n \<Longrightarrow> entry w [i, j] = entry lp [j] * entry ?adv [i]"
    by (simp add: binop_def slp sv unsqueeze_last_def broadcast_1_col expand_def
        expand_index_12 expand_index_21)
  have "mean w = Some ((\<Sum>i<m. \<Sum>j<n. entry w [i, j]) / real (m * n))"
    using sw n m by (intro mean_2d)
  also have "(\<Sum>i<m. \<Sum>j<n. entry w [i, j]) = (\<Sum>i<m. \<Sum>j<n. entry lp [j] * entry ?adv [i])"
    by (intro sum.cong refl) (simp add: ew)
  finally have mw: "mean w = Some ((\<Sum>i<m. \<Sum>j<n. entry lp [j] * entry ?adv [i]) / real (m * n))" .
  have "snd (MLPPolicyPG_update self obs actions advantages g)
      = Inr [(''Actor Loss'', Some (- ((\<Sum>i<m. \<Sum>j<n. entry lp [j] * entry ?adv [i]) / real (m * n))))]"
    by (simp add: snd_MLPPolicyPG_update so pg_loss_def f lp w mw)
  then show ?thesis
    using lp slp f by (simp add: log_probs_def)
qed

section \<open>The critic's loss\<close>

lemma identity_critic_init:
  "ValueCritic_init (\<lambda>x. x) (\<lambda>i. if i = 0 then 1 else 0) 1 0 8 (1 / 10) = Inr identity_critic"
  by (simp add: ValueCritic_init_def build_mlp_def num_params_def Adam_def identity_critic_def)

text \<open>
  C2, as amended. For every critic constructed with \<open>ob_dim\<close>, in any state, a batch of
  \<open>n > 0\<close> observations of shape \<open>[n, ob_dim]\<close> and targets of the same shape \<open>[n, 1]\<close> as
  the predictions, \<^verbatim>\<open>ValueCritic.update\<close> returns under the key "Baseline Loss" the mean
  squared error between \<open>forward(observations)\<close> and the targets: one squared error per
  observation, averaged over the batch.
\<close>

theorem ValueCritic_update_mse:
  assumes st: "critic_state ob_dim self"
    and so: "shape (from_numpy obs) = [n, nat ob_dim]"
    and sq: "shape (from_numpy q_values) = [n, 1]"
    and n: "0 < n"
  shows "\<exists>y. ValueCritic_forward True self (from_numpy obs) = Inr y \<and> shape y = [n, 1] \<and>
     snd (ValueCritic_update self obs q_values g) =
       Inr [(''Baseline Loss'',
             Some (spec_mse (map (\<lambda>i. entry y [i, 0]) [0..<n])
                            (map (\<lambda>i. entry (from_numpy q_values) [i, 0]) [0..<n])))]"
proof -
  have io: "net_io (network self) (nat ob_dim) 1"
    using st by (rule critic_state_net_io)
  from mlp_apply_2d[OF io so, of True] obtain y where
    y: "mlp_apply True (network self) (from_numpy obs) = Inr y" and sy: "shape y = [n, 1]"
    by auto
  let ?q = "from_numpy q_values"
  let ?sq = "\<lambda>a b::real. (a - b) * (a - b)"
  obtain d where d: "binop ?sq y ?q = Inr d" and sd: "shape d = [n, 1]"
    and ed: "\<And>i. i < n \<Longrightarrow> entry d [i, 0] = ?sq (entry y [i, 0]) (entry ?q [i, 0])"
    by (simp add: binop_def sy sq broadcast_same2 expand_def expand_index_21)
  have "mean d = Some ((\<Sum>i<n. \<Sum>j<1. entry d [i, j]) / real (n * 1))"
    using sd n by (intro mean_2d) simp_all
  also have "(\<Sum>i<n. \<Sum>j<1. entry d [i, j]) = (\<Sum>i<n. ?sq (entry y [i, 0]) (entry ?q [i, 0]))"
    by (rule sum.cong) (simp_all add: ed)
  finally have m: "mse_loss y ?q
      = Inr (Some ((\<Sum>i<n. ?sq (entry y [i, 0]) (entry ?q [i, 0])) / real n))"
    by (simp add: mse_loss_def d)
  have l: "ValueCritic_loss (self\<lparr>ValueCritic.grad := None\<rparr>) obs q_values = mse_loss y ?q"
    using y by (simp add: ValueCritic_loss_def ValueCritic_forward_def Let_def)
  show ?thesis
    using y sy
    by (simp add: ValueCritic_forward_def ValueCritic_update_def Let_def l m spec_mse_def
        sum_zip_map_upt split: prod.split)
qed

theorem ValueCritic_update_mse_witness:
  "\<exists>y. ValueCritic_forward True identity_critic (from_numpy (matrix 2 1 [[0], [2]])) = Inr y
       \<and> shape y = [2, 1] \<and>
     snd (ValueCritic_update identity_critic (matrix 2 1 [[0], [2]]) (matrix 2 1 [[0], [2]]) [0, 0]) =
       Inr [(''Baseline Loss'',
             Some (spec_mse (map (\<lambda>i. entry y [i, 0]) [0..<2])
                            (map (\<lambda>i. entry (from_numpy (matrix 2 1 [[0], [2]])) [i, 0]) [0..<2])))]"
  by (rule ValueCritic_update_mse[where ob_dim = 1,
        OF critic_constructed[OF identity_critic_init]])
     (simp_all add: from_numpy_def matrix_def)

text \<open>
  C2 as stated fails for targets given as a vector of \<open>n\<close> values: the predictions have
  shape \<open>[n, 1]\<close>, the loss broadcasts them against the targets and averages \<open>n * n\<close>
  squared differences. The critic below predicts 0 and 2 for the two observations; with
  the targets \<^verbatim>\<open>[0, 2]\<close> the mean squared error is 0, the loss returned is 2.
\<close>

theorem ValueCritic_update_mse_counterexample:
  "ValueCritic_init (\<lambda>x. x) (\<lambda>i. if i = 0 then 1 else 0) 1 0 8 (1 / 10) = Inr identity_critic
   \<and> map_sum id entries (ValueCritic_forward True identity_critic (from_numpy (matrix 2 1 [[0], [2]])))
       = Inr [0, 2]
   \<and> snd (ValueCritic_update identity_critic (matrix 2 1 [[0], [2]]) (array1 [0, 2]) [0, 0])
       = Inr [(''Baseline Loss'', Some 2)]
   \<and> spec_mse [0, 2] [0, 2] = 0
   \<and> snd (ValueCritic_update identity_critic (matrix 2 1 [[0], [2]]) (array1 [0, 2]) [0, 0])
       \<noteq> Inr [(''Baseline Loss'', Some (spec_mse [0, 2] [0, 2]))]"
proof -
  have l: "snd (ValueCritic_update identity_critic (matrix 2 1 [[0], [2]]) (array1 [0, 2]) [0, 0])
       = Inr [(''Baseline Loss'', Some 2)]"
    apply (simp add: ValueCritic_update_def ValueCritic_loss_def Let_def ValueCritic_forward_def
        identity_critic_def mlp_apply_def from_numpy_def matrix_def array1_def vector_def
        mse_loss_def binop_def broadcast_shapes_def split: prod.split)
    apply (simp add: mean_def numel_def sum_all_def expand_def expand_index_def linear_row_def upt_rec)
    done
  have m: "spec_mse [0, 2] [0, 2] = 0"
    by (simp add: spec_mse_def)
  show ?thesis
  proof (intro conjI)
    show "ValueCritic_init (\<lambda>x. x) (\<lambda>i. if i = 0 then 1 else 0) 1 0 8 (1 / 10) = Inr identity_critic"
      by (rule identity_critic_init)
    show "map_sum id entries (ValueCritic_forward True identity_critic (from_numpy (matrix 2 1 [[0], [2]])))
         = Inr [0, 2]"
      by (simp add: ValueCritic_forward_def identity_critic_def mlp_apply_def from_numpy_def
          matrix_def linear_row_def entries_def upt_rec)
    show "snd (ValueCritic_update identity_critic (matrix 2 1 [[0], [2]]) (array1 [0, 2]) [0, 0])
         = Inr [(''Baseline Loss'', Some 2)]"
      by (rule l)
    show "spec_mse [0, 2] [0, 2] = 0"
      by (rule m)
    show "snd (ValueCritic_update identity_critic (matrix 2 1 [[0], [2]]) (array1 [0, 2]) [0, 0])
         \<noteq> Inr [(''Baseline Loss'', Some (spec_mse [0, 2] [0, 2]))]"
      unfolding l m by simp
  qed
qed

section \<open>The policy-gradient loss\<close>

lemma gauss_policy_init:
  "MLPPolicy_init (\<lambda>x. x) (\<lambda>i. 0) 2 1 False 0 8 (1 / 10) = Inr gauss_policy"
  by (simp add: MLPPolicy_init_def build_mlp_def num_params_def Adam_def gauss_policy_def
      eval_nat_numeral Let_def)

lemma coin_policy_init:
  "MLPPolicy_init (\<lambda>x. x) (\<lambda>i. 0) 2 1 True 0 8 (1 / 10) = Inr coin_policy"
  by (simp add: MLPPolicy_init_def build_mlp_def num_params_def Adam_def coin_policy_def
      eval_nat_numeral Let_def)

lemma ln_sqrt_2pi_pos: "0 < ln (sqrt (2 * pi))"
proof -
  have "1 < 2 * pi" using pi_ge_two by simp
  then have "1 < sqrt (2 * pi)" by simp
  then show ?thesis by simp
qed

text \<open>
  C1, as amended. For every policy constructed with \<open>discrete = False\<close> and
  \<open>ac_dim > 0\<close>, in any state, and every batch of \<open>n > 0\<close> observations of shape
  \<open>[n, ob_dim]\<close>, actions of shape \<open>[n, ac_dim]\<close> and advantages of shape \<open>[n]\<close>,
  \<^verbatim>\<open>MLPPolicyPG.update\<close> returns under the key "Actor Loss" the negative mean, over
  all \<open>n * ac_dim\<close> entries, of the per-dimension log-probability times the advantage of
  its example: the negative batch mean of (advantage times total log-probability of the
  example), divided by \<open>ac_dim\<close>.
\<close>

theorem MLPPolicyPG_update_loss:
  assumes st: "policy_state ac_dim ob_dim False self"
    and so: "shape (from_numpy obs) = [n, nat ob_dim]"
    and sa: "shape (from_numpy actions) = [n, nat ac_dim]"
    and sv: "shape (from_numpy advantages) = [n]"
    and n: "0 < n" and a: "0 < ac_dim"
  shows "\<exists>lp. log_probs self obs actions = Inr lp \<and> shape lp = [n, nat ac_dim] \<and>
     snd (MLPPolicyPG_update self obs actions advantages g) =
       Inr [(''Actor Loss'',
             Some (spec_pg_loss (map (\<lambda>i. \<Sum>d<nat ac_dim. entry lp [i, d]) [0..<n])
                                (map (\<lambda>i. entry (from_numpy advantages) [i]) [0..<n])
                   / real (nat ac_dim)))]"
  using pg_loss_continuous[OF policy_state_inv[OF st] so sa sv n] a by simp

theorem MLPPolicyPG_update_loss_witness:
  "\<exists>lp. log_probs gauss_policy (matrix 1 1 [[0]]) (matrix 1 2 [[0, 0]]) = Inr lp \<and> shape lp = [1, nat 2] \<and>
     snd (MLPPolicyPG_update gauss_policy (matrix 1 1 [[0]]) (matrix 1 2 [[0, 0]]) (array1 [1]) [0, 0, 0, 0, 0, 0]) =
       Inr [(''Actor Loss'',
             Some (spec_pg_loss (map (\<lambda>i. \<Sum>d<nat 2. entry lp [i, d]) [0..<1])
                                (map (\<lambda>i. entry (from_numpy (array1 [1])) [i]) [0..<1])
                   / real (nat 2)))]"
  by (rule MLPPolicyPG_update_loss[where ob_dim = 1, OF constructed[OF gauss_policy_init]])
     (simp_all add: from_numpy_def matrix_def array1_def vector_def)

text \<open>
  C1 as stated fails for two action dimensions: the policy below gives each of the two
  dimensions of the action the log-probability \<open>- ln (sqrt (2 \<pi>))\<close>; with the advantage 1
  the negative mean of advantage times total log-probability is \<open>2 ln (sqrt (2 \<pi>))\<close>, the
  loss returned is \<open>ln (sqrt (2 \<pi>))\<close>.
\<close>

theorem MLPPolicyPG_update_loss_counterexample:
  "MLPPolicy_init (\<lambda>x. x) (\<lambda>i. 0) 2 1 False 0 8 (1 / 10) = Inr gauss_policy
   \<and> map_sum id entries (log_probs gauss_policy (matrix 1 1 [[0]]) (matrix 1 2 [[0, 0]]))
       = Inr [- ln (sqrt (2 * pi)), - ln (sqrt (2 * pi))]
   \<and> snd (MLPPolicyPG_update gauss_policy (matrix 1 1 [[0]]) (matrix 1 2 [[0, 0]]) (array1 [1])
            [0, 0, 0, 0, 0, 0])
       = Inr [(''Actor Loss'', Some (ln (sqrt (2 * pi))))]
   \<and> spec_pg_loss [- ln (sqrt (2 * pi)) + - ln (sqrt (2 * pi))] [1] = 2 * ln (sqrt (2 * pi))
   \<and> ln (sqrt (2 * pi)) \<noteq> 2 * ln (sqrt (2 * pi))"
proof (intro conjI)
  show "MLPPolicy_init (\<lambda>x. x) (\<lambda>i. 0) 2 1 False 0 8 (1 / 10) = Inr gauss_policy"
    by (rule gauss_policy_init)
  show "map_sum id entries (log_probs gauss_policy (matrix 1 1 [[0]]) (matrix 1 2 [[0, 0]]))
       = Inr [- ln (sqrt (2 * pi)), - ln (sqrt (2 * pi))]"
    apply (simp add: log_probs_def forward_def gauss_policy_def mlp_apply_def from_numpy_def
        matrix_def Normal_init_def vector_def broadcast_shapes_def)
    apply (simp add: expand_def expand_index_def linear_row_def eval_nat_numeral log_prob_def
        batch_shape_def broadcast_shapes_def entries_def)
    done
  show "snd (MLPPolicyPG_update gauss_policy (matrix 1 1 [[0]]) (matrix 1 2 [[0, 0]]) (array1 [1])
            [0, 0, 0, 0, 0, 0])
       = Inr [(''Actor Loss'', Some (ln (sqrt (2 * pi))))]"
    apply (simp add: snd_MLPPolicyPG_update pg_loss_def forward_def gauss_policy_def mlp_apply_def
        from_numpy_def matrix_def Normal_init_def vector_def broadcast_shapes_def array1_def)
    apply (simp add: expand_def expand_index_def linear_row_def eval_nat_numeral log_prob_def
        batch_shape_def broadcast_shapes_def binop_def unsqueeze_last_def mean_def numel_def
        sum_all_def)
    done
  show "spec_pg_loss [- ln (sqrt (2 * pi)) + - ln (sqrt (2 * pi))] [1] = 2 * ln (sqrt (2 * pi))"
    by (simp add: spec_pg_loss_def)
  show "ln (sqrt (2 * pi)) \<noteq> 2 * ln (sqrt (2 * pi))"
    using ln_sqrt_2pi_pos by simp
qed

text \<open>
  In discrete mode the log-probabilities have shape \<open>[n]\<close> and the advantages, after
  \<^verbatim>\<open>unsqueeze(-1)\<close>, shape \<open>[m, 1]\<close>: their product has shape \<open>[m, n]\<close> and pairs every
  advantage with every log-probability, so the loss is the negative product of the mean
  log-probability and the mean advantage, for any number \<open>m\<close> of advantages.
\<close>

lemma MLPPolicyPG_update_loss_discrete:
  assumes st: "policy_state ac_dim ob_dim True self"
    and so: "shape (from_numpy obs) = [n, nat ob_dim]"
    and sa: "shape (from_numpy actions) = [n]"
    and va: "\<forall>j<n. \<exists>c<nat ac_dim. entry (from_numpy actions) [j] = real c"
    and sv: "shape (from_numpy advantages) = [m]"
    and n: "0 < n" and m: "0 < m"
  shows "\<exists>lp. log_probs self obs actions = Inr lp \<and> shape lp = [n] \<and>
     snd (MLPPolicyPG_update self obs actions advantages g) =
       Inr [(''Actor Loss'',
             Some (- (((\<Sum>j<n. entry lp [j]) / real n)
                      * ((\<Sum>i<m. entry (from_numpy advantages) [i]) / real m))))]"
proof -
  from pg_loss_discrete[OF policy_state_inv[OF st] so sa va sv n m, of g] obtain lp where
    lp: "log_probs self obs actions = Inr lp" "shape lp = [n]"
    and l: "snd (MLPPolicyPG_update self obs actions advantages g) =
       Inr [(''Actor Loss'',
             Some (- ((\<Sum>i<m. \<Sum>j<n. entry lp [j] * entry (from_numpy advantages) [i]) / real (m * n))))]"
    by blast
  have "(\<Sum>i<m. \<Sum>j<n. entry lp [j] * entry (from_numpy advantages) [i])
      = (\<Sum>j<n. entry lp [j]) * (\<Sum>i<m. entry (from_numpy advantages) [i])"
    by (simp add: sum_product mult.commute sum.swap[of _ "{..<m}"])
  with lp l show ?thesis by (simp add: mult.commute)
qed

section \<open>Shape mismatches\<close>

lemma broadcast_mismatch2:
  "m \<noteq> n \<Longrightarrow> m \<noteq> Suc 0 \<Longrightarrow> n \<noteq> Suc 0 \<Longrightarrow> broadcast_shapes [n, a] [m, Suc 0] = None"
  by (simp add: broadcast_shapes_def)

lemma MLPPolicyPG_update_failure:
  assumes "snd (MLPPolicyPG_update self obs actions advantages g) = Inl e"
  shows "fst (MLPPolicyPG_update self obs actions advantages g) = self
       \<or> fst (MLPPolicyPG_update self obs actions advantages g) = self\<lparr>MLPPolicy.grad := None\<rparr>"
  using assms
  by (auto simp: MLPPolicyPG_update_def Let_def split: if_splits sum.splits prod.splits)

lemma ValueCritic_update_failure:
  assumes "snd (ValueCritic_update self obs q_values g) = Inl e"
  shows "fst (ValueCritic_update self obs q_values g) = self\<lparr>ValueCritic.grad := None\<rparr>"
  using assms
  by (auto simp: ValueCritic_update_def Let_def split: if_splits sum.splits prod.splits)

lemma pg_loss_mismatch:
  assumes inv: "policy_inv ob a False self"
    and so: "shape (from_numpy obs) = [n, ob]"
    and sa: "shape (from_numpy actions) = [n, a]"
    and sv: "shape (from_numpy advantages) = [m]"
    and ne: "m \<noteq> n" "m \<noteq> 1" "n \<noteq> 1"
  shows "snd (MLPPolicyPG_update self obs actions advantages g) = Inl RuntimeError"
proof -
  from forward_continuous[OF inv so, of True] obtain loc scale where
    f: "forward True self (from_numpy obs) = Inr (Normal loc scale)" and sl: "shape loc = [n, a]"
    by auto
  obtain lp where lp: "log_prob (Normal loc scale) (from_numpy actions) = Inr lp"
    and slp: "shape lp = [n, a]"
    by (simp add: log_prob_def batch_shape_def sl sa broadcast_same2)
  have "binop (*) lp (unsqueeze_last (from_numpy advantages)) = Inl RuntimeError"
    using ne by (simp add: binop_def slp sv unsqueeze_last_def broadcast_mismatch2)
  then show ?thesis
    by (simp add: snd_MLPPolicyPG_update so pg_loss_def f lp)
qed

lemma critic_loss_mismatch:
  assumes io: "net_io (network self) ob 1"
    and so: "shape (from_numpy obs) = [n, ob]"
    and sq: "shape (from_numpy q_values) = [m, 1]"
    and ne: "m \<noteq> n" "m \<noteq> 1" "n \<noteq> 1"
  shows "snd (ValueCritic_update self obs q_values g) = Inl RuntimeError"
proof -
  from mlp_apply_2d[OF io so, of True] obtain y where
    y: "mlp_apply True (network self) (from_numpy obs) = Inr y" and sy: "shape y = [n, 1]"
    by auto
  have "mse_loss y (from_numpy q_values) = Inl RuntimeError"
    using ne by (simp add: mse_loss_def binop_def sy sq broadcast_mismatch2)
  then show ?thesis
    using y by (simp add: ValueCritic_update_def ValueCritic_loss_def ValueCritic_forward_def Let_def)
qed

lemma broadcast_mismatch1:
  "k \<noteq> n \<Longrightarrow> k \<noteq> Suc 0 \<Longrightarrow> n \<noteq> Suc 0 \<Longrightarrow> broadcast_shapes [k] [n] = None"
  by (simp add: broadcast_shapes_def)

lemma broadcast_mismatch_rows:
  "k \<noteq> n \<Longrightarrow> k \<noteq> Suc 0 \<Longrightarrow> n \<noteq> Suc 0 \<Longrightarrow> broadcast_shapes [k, a] [n, a] = None"
  by (simp add: broadcast_shapes_def)

lemma actions_mismatch:
  assumes inv: "policy_inv ob a d self"
    and so: "shape (from_numpy obs) = [n, ob]"
    and sa: "shape (from_numpy actions) = (if d then [k] else [k, a])"
    and ne: "k \<noteq> n" "k \<noteq> 1" "n \<noteq> 1"
  shows "snd (MLPPolicyPG_update self obs actions advantages g) = Inl ValueError"
proof (cases d)
  case True
  with inv have inv': "policy_inv ob a True self" by simp
  from forward_discrete[OF inv' so, of True] obtain lg where
    f: "forward True self (from_numpy obs) = Inr (Categorical lg)" and sl: "shape lg = [n, a]"
    by auto
  have "log_prob (Categorical lg) (from_numpy actions) = Inl ValueError"
    using ne sa True by (simp add: log_prob_def batch_shape_def sl broadcast_mismatch1)
  then show ?thesis
    by (simp add: snd_MLPPolicyPG_update so pg_loss_def f)
next
  case False
  with inv have inv': "policy_inv ob a False self" by simp
  from forward_continuous[OF inv' so, of True] obtain loc scale where
    f: "forward True self (from_numpy obs) = Inr (Normal loc scale)" and sl: "shape loc = [n, a]"
    by auto
  have "log_prob (Normal loc scale) (from_numpy actions) = Inl ValueError"
    using ne sa False by (simp add: log_prob_def batch_shape_def sl broadcast_mismatch_rows)
  then show ?thesis
    by (simp add: snd_MLPPolicyPG_update so pg_loss_def f)
qed

text \<open>
  C3, as amended. A call of \<^verbatim>\<open>MLPPolicyPG.update\<close> or \<^verbatim>\<open>ValueCritic.update\<close> that raises
  leaves every parameter and the optimizer state as they were. A mismatch of batch
  sizes of which neither is 1 fails with the library's shape error: \<open>n\<close> observations
  against \<open>k\<close> actions, in either mode (the distribution rejects the actions); for a
  continuous policy \<open>n\<close> observations and actions against \<open>m\<close> advantages; for a critic \<open>n\<close>
  observations against targets of shape \<open>[m, 1]\<close>.
\<close>

theorem update_shape_error_atomic:
  "(snd (MLPPolicyPG_update self obs actions advantages g) = Inl e \<longrightarrow>
      parameters (fst (MLPPolicyPG_update self obs actions advantages g)) = parameters self
      \<and> MLPPolicy.optimizer (fst (MLPPolicyPG_update self obs actions advantages g))
          = MLPPolicy.optimizer self)
   \<and> (snd (ValueCritic_update critic cobs q_values cg) = Inl e' \<longrightarrow>
      network (fst (ValueCritic_update critic cobs q_values cg)) = network critic
      \<and> ValueCritic.optimizer (fst (ValueCritic_update critic cobs q_values cg))
          = ValueCritic.optimizer critic)
   \<and> (policy_state ac_dim ob_dim False self \<and> shape (from_numpy obs) = [n, nat ob_dim]
       \<and> shape (from_numpy actions) = [n, nat ac_dim] \<and> shape (from_numpy advantages) = [m]
       \<and> m \<noteq> n \<and> m \<noteq> 1 \<and> n \<noteq> 1 \<longrightarrow>
      snd (MLPPolicyPG_update self obs actions advantages g) = Inl RuntimeError)
   \<and> (policy_state pac_dim pob_dim d policy \<and> shape (from_numpy pobs) = [pn, nat pob_dim]
       \<and> shape (from_numpy pactions) = (if d then [pk] else [pk, nat pac_dim])
       \<and> pk \<noteq> pn \<and> pk \<noteq> 1 \<and> pn \<noteq> 1 \<longrightarrow>
      snd (MLPPolicyPG_update policy pobs pactions padvantages pg) = Inl ValueError)
   \<and> (critic_state cob_dim critic \<and> shape (from_numpy cobs) = [cn, nat cob_dim]
       \<and> shape (from_numpy q_values) = [cm, 1] \<and> cm \<noteq> cn \<and> cm \<noteq> 1 \<and> cn \<noteq> 1 \<longrightarrow>
      snd (ValueCritic_update critic cobs q_values cg) = Inl RuntimeError)"
proof (intro conjI impI)
  assume "snd (MLPPolicyPG_update self obs actions advantages g) = Inl e"
  from MLPPolicyPG_update_failure[OF this]
  show "parameters (fst (MLPPolicyPG_update self obs actions advantages g)) = parameters self"
    and "MLPPolicy.optimizer (fst (MLPPolicyPG_update self obs actions advantages g))
          = MLPPolicy.optimizer self"
    by (auto simp: parameters_def)
next
  assume "snd (ValueCritic_update critic cobs q_values cg) = Inl e'"
  from ValueCritic_update_failure[OF this]
  show "network (fst (ValueCritic_update critic cobs q_values cg)) = network critic"
    and "ValueCritic.optimizer (fst (ValueCritic_update critic cobs q_values cg))
          = ValueCritic.optimizer critic"
    by simp_all
next
  assume "policy_state ac_dim ob_dim False self \<and> shape (from_numpy obs) = [n, nat ob_dim]
       \<and> shape (from_numpy actions) = [n, nat ac_dim] \<and> shape (from_numpy advantages) = [m]
       \<and> m \<noteq> n \<and> m \<noteq> 1 \<and> n \<noteq> 1"
  then show "snd (MLPPolicyPG_update self obs actions advantages g) = Inl RuntimeError"
    using pg_loss_mismatch[OF policy_state_inv, of ac_dim ob_dim self obs n actions advantages m g]
    by simp
next
  assume "policy_state pac_dim pob_dim d policy \<and> shape (from_numpy pobs) = [pn, nat pob_dim]
       \<and> shape (from_numpy pactions) = (if d then [pk] else [pk, nat pac_dim])
       \<and> pk \<noteq> pn \<and> pk \<noteq> 1 \<and> pn \<noteq> 1"
  then show "snd (MLPPolicyPG_update policy pobs pactions padvantages pg) = Inl ValueError"
    using actions_mismatch[OF policy_state_inv, of pac_dim pob_dim d policy pobs pn pactions pk
        padvantages pg]
    by simp
next
  assume "critic_state cob_dim critic \<and> shape (from_numpy cobs) = [cn, nat cob_dim]
       \<and> shape (from_numpy q_values) = [cm, 1] \<and> cm \<noteq> cn \<and> cm \<noteq> 1 \<and> cn \<noteq> 1"
  then show "snd (ValueCritic_update critic cobs q_values cg) = Inl RuntimeError"
    using critic_loss_mismatch[OF critic_state_net_io, of cob_dim critic cobs cn q_values cm cg]
    by simp
qed

theorem update_shape_error_atomic_witness:
  "snd (MLPPolicyPG_update gauss_policy (matrix 3 1 [[0], [0], [0]])
          (matrix 3 2 [[0, 0], [0, 0], [0, 0]]) (array1 [1, 1]) [1, 1, 1, 1, 1, 1]) = Inl RuntimeError
   \<and> parameters (fst (MLPPolicyPG_update gauss_policy (matrix 3 1 [[0], [0], [0]])
          (matrix 3 2 [[0, 0], [0, 0], [0, 0]]) (array1 [1, 1]) [1, 1, 1, 1, 1, 1]))
       = parameters gauss_policy
   \<and> MLPPolicy.optimizer (fst (MLPPolicyPG_update gauss_policy (matrix 3 1 [[0], [0], [0]])
          (matrix 3 2 [[0, 0], [0, 0], [0, 0]]) (array1 [1, 1]) [1, 1, 1, 1, 1, 1]))
       = MLPPolicy.optimizer gauss_policy
   \<and> snd (MLPPolicyPG_update coin_policy (matrix 3 1 [[0], [0], [0]]) (array1 [0, 0])
          (array1 [1, 1, 1]) [1, 1, 1, 1]) = Inl ValueError
   \<and> parameters (fst (MLPPolicyPG_update coin_policy (matrix 3 1 [[0], [0], [0]]) (array1 [0, 0])
          (array1 [1, 1, 1]) [1, 1, 1, 1])) = parameters coin_policy
   \<and> snd (ValueCritic_update identity_critic (matrix 3 1 [[0], [1], [2]])
          (matrix 2 1 [[0], [1]]) [1, 1]) = Inl RuntimeError
   \<and> network (fst (ValueCritic_update identity_critic (matrix 3 1 [[0], [1], [2]])
          (matrix 2 1 [[0], [1]]) [1, 1])) = network identity_critic
   \<and> ValueCritic.optimizer (fst (ValueCritic_update identity_critic (matrix 3 1 [[0], [1], [2]])
          (matrix 2 1 [[0], [1]]) [1, 1])) = ValueCritic.optimizer identity_critic"
proof -
  let ?O = "matrix 3 1 [[0], [0], [0]]" and ?A = "matrix 3 2 [[0, 0], [0, 0], [0, 0]]"
  let ?V = "array1 [1, 1]" and ?g = "[1, 1, 1, 1, 1, 1] :: real list"
  let ?DA = "array1 [0, 0]" and ?DV = "array1 [1, 1, 1]" and ?dg = "[1, 1, 1, 1] :: real list"
  let ?CO = "matrix 3 1 [[0], [1], [2]]" and ?Q = "matrix 2 1 [[0], [1]]"
  let ?cg = "[1, 1] :: real list"
  note t = update_shape_error_atomic[where self = gauss_policy and obs = ?O and actions = ?A
      and advantages = ?V and g = ?g and e = RuntimeError and critic = identity_critic
      and cobs = ?CO and q_values = ?Q and cg = ?cg and e' = RuntimeError
      and ac_dim = 2 and ob_dim = 1 and n = 3 and m = 2
      and pac_dim = 2 and pob_dim = 1 and d = True and policy = coin_policy and pobs = ?O
      and pactions = ?DA and padvantages = ?DV and pg = ?dg and pn = 3 and pk = 2
      and cob_dim = 1 and cn = 3 and cm = 2]
  note u = update_shape_error_atomic[where self = coin_policy and obs = ?O and actions = ?DA
      and advantages = ?DV and g = ?dg and e = ValueError]
  have p: "policy_state 2 1 False gauss_policy"
    by (rule constructed[OF gauss_policy_init])
  have q: "policy_state 2 1 True coin_policy"
    by (rule constructed[OF coin_policy_init])
  have c: "critic_state 1 identity_critic"
    by (rule critic_constructed[OF identity_critic_init])
  have e1: "snd (MLPPolicyPG_update gauss_policy ?O ?A ?V ?g) = Inl RuntimeError"
    using t p by (simp add: from_numpy_def matrix_def array1_def vector_def)
  have e2: "snd (ValueCritic_update identity_critic ?CO ?Q ?cg) = Inl RuntimeError"
    using t c by (simp add: from_numpy_def matrix_def array1_def vector_def)
  have e3: "snd (MLPPolicyPG_update coin_policy ?O ?DA ?DV ?dg) = Inl ValueError"
    using t q by (simp add: from_numpy_def matrix_def array1_def vector_def)
  from t[THEN conjunct1] e1
  have a1: "parameters (fst (MLPPolicyPG_update gauss_policy ?O ?A ?V ?g)) = parameters gauss_policy
      \<and> MLPPolicy.optimizer (fst (MLPPolicyPG_update gauss_policy ?O ?A ?V ?g))
          = MLPPolicy.optimizer gauss_policy"
    by (rule mp)
  from u[THEN conjunct1] e3
  have a3: "parameters (fst (MLPPolicyPG_update coin_policy ?O ?DA ?DV ?dg)) = parameters coin_policy
      \<and> MLPPolicy.optimizer (fst (MLPPolicyPG_update coin_policy ?O ?DA ?DV ?dg))
          = MLPPolicy.optimizer coin_policy"
    by (rule mp)
  from t[THEN conjunct2, THEN conjunct1] e2
  have a2: "network (fst (ValueCritic_update identity_critic ?CO ?Q ?cg)) = network identity_critic
      \<and> ValueCritic.optimizer (fst (ValueCritic_update identity_critic ?CO ?Q ?cg))
          = ValueCritic.optimizer identity_critic"
    by (rule mp)
  from e1 a1 e3 a3 e2 a2 show ?thesis by (intro conjI) (erule conjunct1 conjunct2 | assumption)+
qed

text \<open>
  C3 as stated fails for a batch of one advantage: a continuous policy called with
  three observations, three actions and one advantage raises nothing; the single
  advantage is broadcast against the log-probabilities of all three examples and a loss
  is returned.
\<close>

theorem update_shape_error_counterexample:
  "MLPPolicy_init (\<lambda>x. x) (\<lambda>i. 0) 2 1 False 0 8 (1 / 10) = Inr gauss_policy
   \<and> shape (from_numpy (matrix 3 1 [[0], [0], [0]])) = [3, 1]
   \<and> shape (from_numpy (matrix 3 2 [[0, 0], [0, 0], [0, 0]])) = [3, 2]
   \<and> shape (from_numpy (array1 [1])) = [1]
   \<and> snd (MLPPolicyPG_update gauss_policy (matrix 3 1 [[0], [0], [0]])
            (matrix 3 2 [[0, 0], [0, 0], [0, 0]]) (array1 [1]) [0, 0, 0, 0, 0, 0])
       = Inr [(''Actor Loss'', Some (ln (sqrt (2 * pi))))]"
proof (intro conjI)
  show "MLPPolicy_init (\<lambda>x. x) (\<lambda>i. 0) 2 1 False 0 8 (1 / 10) = Inr gauss_policy"
    by (rule gauss_policy_init)
  show "shape (from_numpy (matrix 3 1 [[0], [0], [0]])) = [3, 1]"
    by (simp add: from_numpy_def matrix_def)
  show "shape (from_numpy (matrix 3 2 [[0, 0], [0, 0], [0, 0]])) = [3, 2]"
    by (simp add: from_numpy_def matrix_def)
  show "shape (from_numpy (array1 [1])) = [1]"
    by (simp add: from_numpy_def array1_def vector_def)
  show "snd (MLPPolicyPG_update gauss_policy (matrix 3 1 [[0], [0], [0]])
            (matrix 3 2 [[0, 0], [0, 0], [0, 0]]) (array1 [1]) [0, 0, 0, 0, 0, 0])
       = Inr [(''Actor Loss'', Some (ln (sqrt (2 * pi))))]"
    apply (simp add: snd_MLPPolicyPG_update pg_loss_def forward_def gauss_policy_def mlp_apply_def
        from_numpy_def matrix_def Normal_init_def vector_def broadcast_shapes_def array1_def)
    apply (simp add: expand_def expand_index_def linear_row_def eval_nat_numeral log_prob_def
        batch_shape_def broadcast_shapes_def binop_def unsqueeze_last_def mean_def numel_def
        sum_all_def)
    done
qed

section \<open>Sampling an action\<close>

lemma pick_less: "ps \<noteq> [] \<Longrightarrow> pick ps u < length ps"
  by (induction ps u rule: pick.induct) auto

lemma mlp_apply_shape:
  assumes "net_io net i o'" "shape x = s @ [i]"
  shows "\<exists>y. mlp_apply ge net x = Inr y \<and> shape y = s @ [o'] \<and> requires_grad y = ge"
  using assms by (cases "dims net") (auto simp: net_io_def mlp_apply_def)

lemma get_action_discrete:
  assumes inv: "policy_inv ob k True self" and k: "0 < k"
    and so: "shape (from_numpy obs) = s @ [ob]"
  shows "\<exists>t. snd (get_action self noise obs) = Inr (Int_Array t) \<and> shape t = s
            \<and> (\<forall>idx. 0 \<le> entry t idx \<and> entry t idx < int k)"
proof -
  from inv obtain net where c: "discrete self" and mn: "logits_net self = Some net"
    and io: "net_io net ob k"
    by (auto simp: policy_inv_def split: option.splits)
  from mlp_apply_shape[OF io so, of False] obtain y where
    m: "mlp_apply False net (from_numpy obs) = Inr y" and sy: "shape y = s @ [k]" by auto
  have f: "\<exists>lg. forward False self (from_numpy obs) = Inr (Categorical lg) \<and> shape lg = s @ [k]"
    using c mn m sy by (simp add: forward_def Categorical_logits_def)
  then obtain lg where f: "forward False self (from_numpy obs) = Inr (Categorical lg)"
    and sl: "shape lg = s @ [k]" by auto
  have "pick (map f [0..<k]) u < k" for f :: "nat \<Rightarrow> real" and u
    using pick_less[of "map f [0..<k]" u] k by simp
  then show ?thesis
    using k by (simp add: get_action_def Let_def f sample_def sl to_numpy_def)
qed

text \<open>
  C4. For every policy constructed with \<open>discrete = True\<close> and \<open>ac_dim > 0\<close>, in any
  state, \<^verbatim>\<open>get_action\<close> on an observation of \<open>ob_dim\<close> features (or a batch of them, of
  any batch shape \<open>s\<close>) returns an integer array of shape \<open>s\<close> whose entries are action
  indices in \<open>[0, ac_dim)\<close>, whatever the random draws are.
\<close>

theorem get_action_in_range:
  assumes st: "policy_state ac_dim ob_dim True self" and a: "0 < ac_dim"
    and so: "shape (from_numpy obs) = s @ [nat ob_dim]"
  shows "\<exists>t. snd (get_action self noise obs) = Inr (Int_Array t) \<and> shape t = s
            \<and> (\<forall>idx. 0 \<le> entry t idx \<and> entry t idx < ac_dim)"
  using get_action_discrete[OF policy_state_inv[OF st] _ so, of noise] a by simp

theorem get_action_in_range_witness:
  "\<exists>t. snd (get_action coin_policy (\<lambda>idx. 3 / 4) (array1 [0])) = Inr (Int_Array t) \<and> shape t = []
            \<and> (\<forall>idx. 0 \<le> entry t idx \<and> entry t idx < 2)"
  by (rule get_action_in_range[where ob_dim = 1 and s = "[]", OF constructed[OF coin_policy_init]])
     (simp_all add: from_numpy_def array1_def vector_def)

section \<open>The parameters of a policy\<close>

lemma layout_update: "layout (fst (MLPPolicyPG_update self obs actions advantages g)) = layout self"
proof -
  have s: "layout ((set_parameters (self\<lparr>MLPPolicy.grad := x\<rparr>) w)\<lparr>MLPPolicy.optimizer := opt\<rparr>)
      = layout self" if "length w = length (parameters self)" for x w opt
    using that
    by (auto simp: layout_def set_parameters_def parameters_def Let_def split: option.splits)
  have p: "parameters (self\<lparr>MLPPolicy.grad := x\<rparr>) = parameters self" for x
    by (simp add: parameters_def)
  have l: "layout (self\<lparr>MLPPolicy.grad := x\<rparr>) = layout self" for x
    by (simp add: layout_def)
  show ?thesis
  proof (cases "length (shape (from_numpy obs)) < 2")
    case True
    then show ?thesis by (simp add: MLPPolicyPG_update_def Let_def)
  next
    case False
    show ?thesis
    proof (cases "pg_loss (self\<lparr>MLPPolicy.grad := None\<rparr>) (from_numpy obs) (from_numpy actions)
                    (from_numpy advantages)")
      case (Inl e)
      with False show ?thesis by (simp add: MLPPolicyPG_update_def Let_def l)
    next
      case (Inr loss)
      obtain w opt where a: "adam_step (MLPPolicy.optimizer self) (parameters self) g = (w, opt)"
        by (cases "adam_step (MLPPolicy.optimizer self) (parameters self) g")
      from adam_step_lengthD[OF a] have "length w = length (parameters self)" .
      from s[OF this] False Inr a show ?thesis
        by (simp add: MLPPolicyPG_update_def Let_def p)
    qed
  qed
qed

text \<open>
  C6. In every state of a policy constructed with the flag \<open>discrete\<close>, the flag has the
  value given at construction and decides which parameters exist: the logits network
  alone, or the mean network and the log-std alone. \<^verbatim>\<open>update\<close> changes neither the
  flag, nor which parameters exist, nor the layer sizes, nor the number of parameters;
  \<^verbatim>\<open>get_action\<close> and the base class's \<^verbatim>\<open>update\<close> leave the policy as it is (and
  \<^verbatim>\<open>forward\<close> returns a distribution only).
\<close>

theorem discrete_decides_parameters:
  assumes st: "policy_state ac_dim ob_dim d self"
  shows "discrete self = d
    \<and> (if d then logits_net self \<noteq> None \<and> mean_net self = None \<and> logstd self = None
        else logits_net self = None \<and> mean_net self \<noteq> None \<and> logstd self \<noteq> None)
    \<and> layout (fst (MLPPolicyPG_update self obs actions advantages g)) = layout self
    \<and> fst (get_action self noise obs') = self
    \<and> fst (MLPPolicy_update self obs actions advantages) = self"
  using policy_state_inv[OF st]
  by (auto simp: policy_inv_def layout_update get_action_state MLPPolicy_update_def
      split: option.splits if_splits)

theorem discrete_decides_parameters_witness:
  "discrete coin_policy = True
    \<and> logits_net coin_policy \<noteq> None \<and> mean_net coin_policy = None \<and> logstd coin_policy = None
    \<and> layout (fst (MLPPolicyPG_update coin_policy (matrix 1 1 [[0]]) (array1 [0]) (array1 [1]) [1, 1, 1, 1]))
        = layout coin_policy
    \<and> fst (get_action coin_policy (\<lambda>idx. 0) (array1 [0])) = coin_policy
    \<and> fst (MLPPolicy_update coin_policy (matrix 1 1 [[0]]) (array1 [0]) (array1 [1])) = coin_policy"
  using discrete_decides_parameters[OF constructed[OF coin_policy_init],
      of "matrix 1 1 [[0]]" "array1 [0]" "array1 [1]" "[1, 1, 1, 1]" "\<lambda>idx. 0" "array1 [0]"]
  by simp

section \<open>Determinism of the forward pass\<close>

text \<open>
  C7. The distribution that \<^verbatim>\<open>forward\<close> returns for a batch, and the values that the
  critic's \<^verbatim>\<open>forward\<close> returns, are a function of the batch and of the network
  parameters (for the policy: the flag, the networks and the log-std) alone: two calls
  on the same batch in states that agree on the parameters return the same distribution
  parameters, whatever happened to the optimizer state, the gradient buffers or the
  random generator in between; sampling an action in between changes nothing.
\<close>

theorem forward_deterministic:
  "(discrete p = discrete p' \<and> logits_net p = logits_net p' \<and> mean_net p = mean_net p'
      \<and> logstd p = logstd p' \<longrightarrow> forward ge p obs = forward ge p' obs)
   \<and> (network c = network c' \<longrightarrow> ValueCritic_forward ge c obs = ValueCritic_forward ge c' obs)
   \<and> forward ge (fst (get_action p noise obs2)) obs = forward ge p obs"
  by (auto simp: forward_def ValueCritic_forward_def get_action_state
      split: option.splits sum.splits)

theorem forward_deterministic_witness:
  "forward True gauss_policy (from_numpy (matrix 1 1 [[0]]))
     = forward True (gauss_policy\<lparr>MLPPolicy.optimizer := (MLPPolicy.optimizer gauss_policy)\<lparr>step_count := 1\<rparr>,
                                   MLPPolicy.grad := Some [1, 1, 1, 1, 1, 1]\<rparr>)
         (from_numpy (matrix 1 1 [[0]]))
   \<and> ValueCritic_forward True identity_critic (from_numpy (matrix 1 1 [[0]]))
     = ValueCritic_forward True (identity_critic\<lparr>ValueCritic.grad := Some [1, 1]\<rparr>)
         (from_numpy (matrix 1 1 [[0]]))
   \<and> forward True (fst (get_action gauss_policy (\<lambda>idx. 0) (array1 [0]))) (from_numpy (matrix 1 1 [[0]]))
     = forward True gauss_policy (from_numpy (matrix 1 1 [[0]]))"
  using forward_deterministic[of gauss_policy
      "gauss_policy\<lparr>MLPPolicy.optimizer := (MLPPolicy.optimizer gauss_policy)\<lparr>step_count := 1\<rparr>,
                    MLPPolicy.grad := Some [1, 1, 1, 1, 1, 1]\<rparr>"
      True "from_numpy (matrix 1 1 [[0]])" identity_critic
      "identity_critic\<lparr>ValueCritic.grad := Some [1, 1]\<rparr>" "\<lambda>idx. 0" "array1 [0]"]
  by simp

section \<open>Sampling leaves no trace\<close>

lemma from_numpy_detached: "\<not> requires_grad (from_numpy a)"
  by (cases a) (simp_all add: from_numpy_def)

lemma forward_no_grad:
  "\<not> requires_grad x \<Longrightarrow> forward False self x = Inr d \<Longrightarrow> \<not> tracked d"
  by (auto simp: forward_def tracked_def Categorical_logits_def Normal_init_def mlp_apply_def
      expand_def vector_def split: option.splits sum.splits if_splits list.splits)

lemma get_action_detached:
  "snd (get_action self noise obs) = Inr a
   \<Longrightarrow> (case a of Int_Array t \<Rightarrow> \<not> requires_grad t | Float_Array t \<Rightarrow> \<not> requires_grad t)"
  by (auto simp: get_action_def Let_def sample_def to_numpy_def
      split: sum.splits distribution.splits if_splits)

text \<open>
  C8. \<^verbatim>\<open>get_action\<close> returns the policy as it was: parameters, optimizer state and
  gradient buffers are unchanged. Its forward pass runs with gradient tracking
  disabled, so the distribution it builds carries no differentiation history, and the
  action it returns is a plain array without history.
\<close>

theorem get_action_no_side_effect:
  "fst (get_action self noise obs) = self
   \<and> (\<forall>d. forward False self (from_numpy obs) = Inr d \<longrightarrow> \<not> tracked d)
   \<and> (\<forall>a. snd (get_action self noise obs) = Inr a \<longrightarrow>
        (case a of Int_Array t \<Rightarrow> \<not> requires_grad t | Float_Array t \<Rightarrow> \<not> requires_grad t))"
  using forward_no_grad[OF from_numpy_detached] get_action_detached
  by (auto simp: get_action_state)

theorem get_action_no_side_effect_witness:
  "fst (get_action coin_policy (\<lambda>idx. 3 / 4) (array1 [0])) = coin_policy
   \<and> (\<exists>lg. forward False coin_policy (from_numpy (array1 [0])) = Inr (Categorical lg)
           \<and> \<not> requires_grad lg)
   \<and> (\<exists>t. snd (get_action coin_policy (\<lambda>idx. 3 / 4) (array1 [0])) = Inr (Int_Array t)
           \<and> \<not> requires_grad t)"
proof -
  note t = get_action_no_side_effect[of coin_policy "\<lambda>idx. 3 / 4" "array1 [0]"]
  have inv: "policy_inv 1 2 True coin_policy"
    using MLPPolicy_init_inv[OF coin_policy_init] by simp
  have "\<exists>lg. forward False coin_policy (from_numpy (array1 [0])) = Inr (Categorical lg)"
    by (simp add: forward_def coin_policy_def mlp_apply_def from_numpy_def array1_def vector_def
        Categorical_logits_def)
  then obtain lg where f: "forward False coin_policy (from_numpy (array1 [0])) = Inr (Categorical lg)"
    by blast
  with t have "\<not> tracked (Categorical lg)" by blast
  then have 1: "\<not> requires_grad lg" by (simp add: tracked_def)
  from get_action_discrete[OF inv, where s = "[]" and obs = "array1 [0]" and noise = "\<lambda>idx. 3 / 4"]
  obtain a where g: "snd (get_action coin_policy (\<lambda>idx. 3 / 4) (array1 [0])) = Inr (Int_Array a)"
    by (auto simp: from_numpy_def array1_def vector_def)
  with t have 2: "\<not> requires_grad a" by fastforce
  from t f 1 g 2 show ?thesis by blast
qed

section \<open>Construction\<close>

lemma build_mlp_invalid:
  assumes "i \<le> 0 \<or> o' \<le> 0"
  shows "build_mlp act init i o' n s = Inl ConfigurationError"
proof -
  let ?ds = "layer_dims i (nat n) s o'"
  have ne: "?ds \<noteq> []" by (rule layer_dims_ne)
  then have "hd ?ds \<in> set ?ds" "last ?ds \<in> set ?ds" by simp_all
  moreover have "fst (hd ?ds) \<le> 0 \<or> snd (last ?ds) \<le> 0"
    using assms by (simp add: layer_dims_hd layer_dims_last)
  ultimately have "list_ex (\<lambda>(i, o'). i \<le> 0 \<or> o' \<le> 0) ?ds"
    by (auto simp: list_ex_iff case_prod_beta)
  then show ?thesis by (simp add: build_mlp_def Let_def)
qed

text \<open>
  C9. Construction of a policy with \<open>ac_dim \<le> 0\<close> or \<open>ob_dim \<le> 0\<close>, in either mode, and of
  a critic with \<open>ob_dim \<le> 0\<close>, fails with the configuration error: \<^verbatim>\<open>__init__\<close> passes
  \<open>ob_dim\<close> and \<open>ac_dim\<close> to the network builder before anything else and lets the error
  of the builder reach the caller; no policy or critic is returned.
\<close>

theorem init_invalid_dimension:
  "(ac_dim \<le> 0 \<or> ob_dim \<le> 0 \<longrightarrow>
      MLPPolicy_init act init ac_dim ob_dim d n_layers layer_size learning_rate
        = Inl ConfigurationError)
   \<and> (ob_dim \<le> 0 \<longrightarrow>
      ValueCritic_init act init ob_dim n_layers layer_size learning_rate = Inl ConfigurationError)"
  by (auto simp: MLPPolicy_init_def ValueCritic_init_def build_mlp_invalid)

theorem init_invalid_dimension_witness:
  "MLPPolicy_init (\<lambda>x. x) (\<lambda>i. 0) 0 1 True 0 8 (1 / 10) = Inl ConfigurationError
   \<and> MLPPolicy_init (\<lambda>x. x) (\<lambda>i. 0) 2 (- 1) False 0 8 (1 / 10) = Inl ConfigurationError
   \<and> ValueCritic_init (\<lambda>x. x) (\<lambda>i. 0) 0 0 8 (1 / 10) = Inl ConfigurationError"
  using init_invalid_dimension[of 0 1 "\<lambda>x. x" "\<lambda>i. 0" True 0 8 "1 / 10"]
    init_invalid_dimension[of 2 "- 1" "\<lambda>x. x" "\<lambda>i. 0" False 0 8 "1 / 10"]
    init_invalid_dimension[of 2 0 "\<lambda>x. x" "\<lambda>i. 0" False 0 8 "1 / 10"]
  by simp

section \<open>Entries read by a broadcast\<close>

lemma set_indices: "set (indices s) = {idx. list_all2 (<) idx s}"
proof (induction s)
  case Nil
  then show ?case by auto
next
  case (Cons n s)
  show ?case
  proof (intro set_eqI iffI)
    fix idx assume "idx \<in> set (indices (n # s))"
    then show "idx \<in> {idx. list_all2 (<) idx (n # s)}"
      using Cons.IH by auto
  next
    fix idx assume "idx \<in> {idx. list_all2 (<) idx (n # s)}"
    then obtain i rest where "idx = i # rest" "i < n" "list_all2 (<) rest s"
      by (auto simp: list_all2_Cons2)
    then show "idx \<in> set (indices (n # s))"
      using Cons.IH by auto
  qed
qed

lemma squash_in: "list_all2 (<) js ys \<Longrightarrow> list_all2 (<) (map squash (zip ys js)) ys"
  by (induction js ys rule: list_all2_induct) (auto simp: squash_def)

lemma broadcast_rev_in:
  "broadcast_rev xs ys = Some zs \<Longrightarrow> list_all2 (<) js zs
   \<Longrightarrow> list_all2 (<) (map squash (zip xs (take (length xs) js))) xs
     \<and> list_all2 (<) (map squash (zip ys (take (length ys) js))) ys"
proof (induction xs ys arbitrary: zs js rule: broadcast_rev.induct)
  case (1 ys)
  then show ?case using squash_in[of js ys] by (simp add: list_all2_lengthD)
next
  case (2 x xs)
  then show ?case using squash_in[of js "x # xs"] by (simp add: list_all2_lengthD)
next
  case (3 x xs y ys)
  from "3.prems"(1) obtain z zs' where zs: "zs = z # zs'"
    and r: "broadcast_rev xs ys = Some zs'"
    and z: "z = (if x = y \<or> y = 1 then x else y)"
    and c: "x = y \<or> y = 1 \<or> x = 1"
    by (auto split: if_splits)
  from "3.prems"(2) zs obtain j js' where js: "js = j # js'" and j: "j < z"
    and a: "list_all2 (<) js' zs'"
    by (auto simp: list_all2_Cons2)
  have ih: "list_all2 (<) (map squash (zip xs (take (length xs) js'))) xs
     \<and> list_all2 (<) (map squash (zip ys (take (length ys) js'))) ys"
  proof (cases "x = y \<or> y = 1")
    case True
    then show ?thesis using "3.IH"(1)[OF True r a] by simp
  next
    case False
    with c have "x = 1" by simp
    then show ?thesis using "3.IH"(2)[OF False _ r a] by simp
  qed
  have "squash (x, j) < x" "squash (y, j) < y"
    using j z c by (auto simp: squash_def split: if_splits)
  with ih show ?case by (simp add: js)
qed

lemma expand_index_rev:
  assumes "length b \<le> length idx"
  shows "rev (expand_index b idx) = map squash (zip (rev b) (take (length b) (rev idx)))"
proof -
  let ?t = "drop (length idx - length b) idx"
  have l: "length b = length ?t" using assms by simp
  have t: "rev ?t = take (length b) (rev idx)"
    using assms by (simp add: rev_drop)
  have "rev (expand_index b idx) = map squash (rev (zip b ?t))"
    by (simp add: expand_index_def squash_def rev_map)
  also have "rev (zip b ?t) = zip (rev b) (rev ?t)"
    using zip_rev[OF l] by simp
  finally show ?thesis by (simp only: t)
qed

lemma broadcast_rev_length:
  "broadcast_rev xs ys = Some zs \<Longrightarrow> length xs \<le> length zs \<and> length ys \<le> length zs"
  by (induction xs ys arbitrary: zs rule: broadcast_rev.induct) (auto split: if_splits)

lemma expand_index_in:
  assumes b: "broadcast_shapes a b = Some s" and i: "idx \<in> set (indices s)"
  shows "expand_index a idx \<in> set (indices a) \<and> expand_index b idx \<in> set (indices b)"
proof -
  from b obtain zs where r: "broadcast_rev (rev a) (rev b) = Some zs" and s: "s = rev zs"
    by (auto simp: broadcast_shapes_def)
  from i have all: "list_all2 (<) idx s" by (simp add: set_indices)
  then have li: "length idx = length s" by (rule list_all2_lengthD)
  from all s have ra: "list_all2 (<) (rev idx) zs" by (simp add: list_all2_rev1)
  from broadcast_rev_length[OF r] s li have la: "length a \<le> length idx" and lb: "length b \<le> length idx"
    by simp_all
  from broadcast_rev_in[OF r ra]
  have "list_all2 (<) (rev (expand_index a idx)) (rev a)"
    and "list_all2 (<) (rev (expand_index b idx)) (rev b)"
    by (simp_all add: expand_index_rev[OF la] expand_index_rev[OF lb])
  then show ?thesis by (simp add: set_indices)
qed


section \<open>Zero advantages\<close>

lemma sum_list_zero: "(\<And>x. x \<in> set xs \<Longrightarrow> f x = (0::real)) \<Longrightarrow> sum_list (map f xs) = 0"
  by (induction xs) simp_all

lemma mean_zero:
  assumes "\<And>idx. idx \<in> set (indices (shape t)) \<Longrightarrow> entry t idx = 0"
  shows "mean t = None \<or> mean t = Some 0"
  using sum_list_zero[of "indices (shape t)" "entry t"] assms
  by (simp add: mean_def sum_all_def)

lemma unsqueeze_zero:
  assumes z: "\<forall>idx\<in>set (indices (shape t)). entry t idx = (0::real)"
    and i: "idx \<in> set (indices (shape (unsqueeze_last t)))"
  shows "entry (unsqueeze_last t) idx = 0"
proof -
  from i have "list_all2 (<) idx (shape t @ [1])"
    by (simp add: set_indices unsqueeze_last_def)
  then have "list_all2 (<) (butlast idx) (shape t)"
    by (auto simp: list_all2_append2 list_all2_Cons2 butlast_append)
  with z show ?thesis by (simp add: unsqueeze_last_def set_indices)
qed

lemma pg_loss_zero:
  assumes z: "\<forall>idx\<in>set (indices (shape adv)). entry adv idx = 0"
  shows "pg_loss self obs actions adv = Inr (Some l) \<Longrightarrow> l = 0"
proof -
  assume a: "pg_loss self obs actions adv = Inr (Some l)"
  then obtain dists lp w where w: "binop (*) lp (unsqueeze_last adv) = Inr w"
    and m: "map_option uminus (mean w) = Some l"
    by (auto simp: pg_loss_def split: sum.splits)
  from w obtain s where b: "broadcast_shapes (shape lp) (shape (unsqueeze_last adv)) = Some s"
    and sw: "shape w = s"
    and ew: "\<And>idx. entry w idx = entry lp (expand_index (shape lp) idx)
               * entry (unsqueeze_last adv) (expand_index (shape (unsqueeze_last adv)) idx)"
    by (auto simp: binop_def expand_def split: option.splits)
  have "entry w idx = 0" if "idx \<in> set (indices (shape w))" for idx
  proof -
    from expand_index_in[OF b] that sw
    have "expand_index (shape (unsqueeze_last adv)) idx \<in> set (indices (shape (unsqueeze_last adv)))"
      by simp
    from unsqueeze_zero[OF z this] show ?thesis by (simp add: ew)
  qed
  from mean_zero[OF this] m show "l = 0" by auto
qed

lemma pg_loss_at_zero:
  assumes "\<forall>idx\<in>set (indices (shape (from_numpy advantages))). entry (from_numpy advantages) idx = 0"
  shows "pg_loss_at self obs actions advantages w = 0"
  using pg_loss_zero[OF assms]
  by (auto simp: pg_loss_at_def split: sum.splits option.splits)

lemma is_gradient_const:
  assumes "is_gradient (\<lambda>w. c) w g"
  shows "g = replicate (length w) 0"
proof (rule nth_equalityI)
  show "length g = length (replicate (length w) (0::real))"
    using assms by (simp add: is_gradient_def)
next
  fix i assume "i < length g"
  then have i: "i < length w" using assms by (simp add: is_gradient_def)
  with assms have "((\<lambda>t. c) has_real_derivative g ! i) (at (w ! i))"
    by (simp add: is_gradient_def)
  moreover have "((\<lambda>t. c) has_real_derivative 0) (at (w ! i))" by simp
  ultimately have "g ! i = 0" by (rule DERIV_unique)
  with i show "g ! i = replicate (length w) 0 ! i" by simp
qed

lemma is_gradient_const_zero: "is_gradient (\<lambda>w. c) w (replicate (length w) 0)"
  by (simp add: is_gradient_def)

lemma adam_step_zero:
  assumes "\<forall>i<length w. exp_avg opt ! i = 0"
  shows "fst (adam_step opt w (replicate (length w) 0)) = w"
  using assms by (auto simp: adam_step_def Let_def intro!: nth_equalityI)

lemma parameters_grad: "parameters (self\<lparr>MLPPolicy.grad := x\<rparr>) = parameters self"
  by (simp add: parameters_def)

lemma set_parameters_same:
  "(set_parameters (self\<lparr>MLPPolicy.grad := x\<rparr>) (parameters self))\<lparr>MLPPolicy.optimizer := opt\<rparr>
     = self\<lparr>MLPPolicy.grad := x, MLPPolicy.optimizer := opt\<rparr>"
  by (cases self) (auto simp: set_parameters_def parameters_def Let_def split: option.splits)

lemma MLPPolicyPG_update_zero_step:
  assumes "\<forall>i<length (parameters self). exp_avg (MLPPolicy.optimizer self) ! i = 0"
  shows "\<exists>x opt. fst (MLPPolicyPG_update self obs actions advantages
                        (replicate (length (parameters self)) 0))
           = self\<lparr>MLPPolicy.grad := x, MLPPolicy.optimizer := opt\<rparr>"
proof (cases "snd (MLPPolicyPG_update self obs actions advantages
                        (replicate (length (parameters self)) 0))")
  case (Inl e)
  from MLPPolicyPG_update_failure[OF this] show ?thesis
    by (metis MLPPolicy.surjective MLPPolicy.update_convs(5) MLPPolicy.update_convs(6))
next
  case (Inr d)
  let ?g = "replicate (length (parameters self)) (0::real)"
  obtain w opt where a: "adam_step (MLPPolicy.optimizer self) (parameters self) ?g = (w, opt)"
    by (cases "adam_step (MLPPolicy.optimizer self) (parameters self) ?g")
  from adam_step_zero[OF assms] a have w: "w = parameters self" by simp
  from Inr a have "fst (MLPPolicyPG_update self obs actions advantages ?g)
      = (set_parameters (self\<lparr>MLPPolicy.grad := Some ?g\<rparr>) w)\<lparr>MLPPolicy.optimizer := opt\<rparr>"
    by (auto simp: MLPPolicyPG_update_def Let_def parameters_grad split: if_splits sum.splits)
  then show ?thesis unfolding w set_parameters_same by blast
qed


lemma parameters_set_parameters:
  "length w = length (parameters self) \<Longrightarrow> parameters (set_parameters self w) = w"
  by (auto simp: set_parameters_def parameters_def Let_def split: option.splits if_splits)

lemma parameters_update_success:
  assumes "snd (MLPPolicyPG_update self obs actions advantages g) = Inr d"
  shows "parameters (fst (MLPPolicyPG_update self obs actions advantages g))
       = fst (adam_step (MLPPolicy.optimizer self) (parameters self) g)"
proof -
  obtain w opt where a: "adam_step (MLPPolicy.optimizer self) (parameters self) g = (w, opt)"
    by (cases "adam_step (MLPPolicy.optimizer self) (parameters self) g")
  from adam_step_lengthD[OF a]
  have l: "length w = length (parameters (self\<lparr>MLPPolicy.grad := Some g\<rparr>))"
    by (simp add: parameters_grad)
  have o: "parameters (p\<lparr>MLPPolicy.optimizer := x\<rparr>) = parameters p" for p x
    by (simp add: parameters_def)
  from assms a have "fst (MLPPolicyPG_update self obs actions advantages g)
      = (set_parameters (self\<lparr>MLPPolicy.grad := Some g\<rparr>) w)\<lparr>MLPPolicy.optimizer := opt\<rparr>"
    by (auto simp: MLPPolicyPG_update_def Let_def parameters_grad split: if_splits sum.splits)
  then show ?thesis
    using parameters_set_parameters[OF l] a by (simp add: o)
qed

lemma beta1_power: "beta1 ^ Suc n < 1"
  unfolding beta1_def by (rule power_Suc_less_one) simp_all

lemma beta2_power: "beta2 ^ Suc n < 1"
  unfolding beta2_def by (rule power_Suc_less_one) simp_all

lemma adam_step_moves:
  assumes i: "i < length w" and l: "lr opt \<noteq> 0"
    and m: "beta1 * exp_avg opt ! i + (1 - beta1) * g ! i \<noteq> 0"
    and v: "0 \<le> exp_avg_sq opt ! i"
  shows "fst (adam_step opt w g) ! i \<noteq> w ! i"
proof -
  let ?t = "Suc (step_count opt)"
  let ?m = "beta1 * exp_avg opt ! i + (1 - beta1) * g ! i"
  let ?v = "beta2 * exp_avg_sq opt ! i + (1 - beta2) * (g ! i * g ! i)"
  let ?denom = "sqrt ?v / sqrt (1 - beta2 ^ ?t) + adam_eps"
  have "0 \<le> ?v" using v by (simp add: beta2_def)
  then have "0 \<le> sqrt ?v / sqrt (1 - beta2 ^ ?t)"
    using beta2_power[of "step_count opt"] by simp
  then have d: "0 < ?denom" by (simp add: adam_eps_def add_nonneg_pos)
  have s: "lr opt / (1 - beta1 ^ ?t) \<noteq> 0"
    using l beta1_power[of "step_count opt"] by simp
  have "fst (adam_step opt w g) ! i = w ! i - lr opt / (1 - beta1 ^ ?t) * (?m / ?denom)"
    using i by (simp add: adam_step_def Let_def)
  moreover have "lr opt / (1 - beta1 ^ ?t) * (?m / ?denom) \<noteq> 0"
    using s m d by simp
  ultimately show ?thesis by simp
qed

text \<open>
  C5, as amended. For every policy whose optimizer holds zero first-moment estimates
  (as every newly constructed policy does) and every batch whose advantages are all
  zero, the gradient of the loss in the parameters is zero and \<^verbatim>\<open>MLPPolicyPG.update\<close>
  leaves the networks and the log-std unchanged.
\<close>

theorem zero_advantages_no_step:
  assumes zero: "\<forall>idx\<in>set (indices (shape (from_numpy advantages))).
                   entry (from_numpy advantages) idx = 0"
    and grad: "is_gradient (pg_loss_at self obs actions advantages) (parameters self) g"
    and mom: "\<forall>i<length (parameters self). exp_avg (MLPPolicy.optimizer self) ! i = 0"
  shows "g = replicate (length (parameters self)) 0
     \<and> parameters (fst (MLPPolicyPG_update self obs actions advantages g)) = parameters self
     \<and> logits_net (fst (MLPPolicyPG_update self obs actions advantages g)) = logits_net self
     \<and> mean_net (fst (MLPPolicyPG_update self obs actions advantages g)) = mean_net self
     \<and> logstd (fst (MLPPolicyPG_update self obs actions advantages g)) = logstd self"
proof -
  have "pg_loss_at self obs actions advantages = (\<lambda>w. 0)"
    by (rule ext) (rule pg_loss_at_zero[OF zero])
  with grad have g: "g = replicate (length (parameters self)) 0"
    by (simp add: is_gradient_const)
  from MLPPolicyPG_update_zero_step[OF mom, of obs actions advantages] obtain x opt where
    "fst (MLPPolicyPG_update self obs actions advantages g)
       = self\<lparr>MLPPolicy.grad := x, MLPPolicy.optimizer := opt\<rparr>"
    unfolding g by blast
  then show ?thesis using g by (simp add: parameters_def)
qed

lemma unit_policy_init:
  "MLPPolicy_init (\<lambda>x. x) (\<lambda>i. 0) 1 1 False 0 8 (1 / 10) = Inr unit_policy"
  by (simp add: MLPPolicy_init_def build_mlp_def num_params_def Adam_def unit_policy_def
      eval_nat_numeral Let_def)

lemma parameters_unit_policy: "parameters unit_policy = [0, 0, 0]"
  by (simp add: parameters_def unit_policy_def)

lemma zero_array: "\<forall>idx\<in>set (indices (shape (from_numpy (array1 [0])))).
                   entry (from_numpy (array1 [0])) idx = 0"
  by (simp add: from_numpy_def array1_def vector_def)

theorem zero_advantages_no_step_witness:
  "[0, 0, 0] = replicate (length (parameters unit_policy)) (0::real)
   \<and> parameters (fst (MLPPolicyPG_update unit_policy (matrix 1 1 [[0]]) (matrix 1 1 [[0]])
                        (array1 [0]) [0, 0, 0])) = parameters unit_policy
   \<and> logits_net (fst (MLPPolicyPG_update unit_policy (matrix 1 1 [[0]]) (matrix 1 1 [[0]])
                        (array1 [0]) [0, 0, 0])) = logits_net unit_policy
   \<and> mean_net (fst (MLPPolicyPG_update unit_policy (matrix 1 1 [[0]]) (matrix 1 1 [[0]])
                        (array1 [0]) [0, 0, 0])) = mean_net unit_policy
   \<and> logstd (fst (MLPPolicyPG_update unit_policy (matrix 1 1 [[0]]) (matrix 1 1 [[0]])
                        (array1 [0]) [0, 0, 0])) = logstd unit_policy"
proof (rule zero_advantages_no_step)
  show "\<forall>idx\<in>set (indices (shape (from_numpy (array1 [0])))).
                   entry (from_numpy (array1 [0])) idx = 0"
    by (rule zero_array)
  have "pg_loss_at unit_policy (matrix 1 1 [[0]]) (matrix 1 1 [[0]]) (array1 [0]) = (\<lambda>w. 0)"
    by (rule ext) (rule pg_loss_at_zero[OF zero_array])
  then show "is_gradient (pg_loss_at unit_policy (matrix 1 1 [[0]]) (matrix 1 1 [[0]]) (array1 [0]))
       (parameters unit_policy) [0, 0, 0]"
    using is_gradient_const_zero[of 0 "parameters unit_policy"]
    by (simp add: parameters_unit_policy eval_nat_numeral)
  show "\<forall>i<length (parameters unit_policy). exp_avg (MLPPolicy.optimizer unit_policy) ! i = 0"
    unfolding parameters_unit_policy by (auto simp: unit_policy_def nth_Cons')
qed


lemma unit_loss_at:
  "pg_loss_at unit_policy (matrix 1 1 [[0]]) (matrix 1 1 [[0]]) (array1 [1]) [s, w, b]
     = b * b / (2 * (exp s * exp s)) + s + ln (sqrt (2 * pi))"
  apply (simp add: pg_loss_at_def set_parameters_def unit_policy_def pg_loss_def forward_def
      mlp_apply_def from_numpy_def matrix_def Normal_init_def vector_def broadcast_shapes_def
      array1_def)
  apply (simp add: expand_def expand_index_def linear_row_def log_prob_def batch_shape_def
      broadcast_shapes_def binop_def unsqueeze_last_def mean_def numel_def sum_all_def not_le
      Let_def)
  done

lemma unit_gradient:
  "is_gradient (pg_loss_at unit_policy (matrix 1 1 [[0]]) (matrix 1 1 [[0]]) (array1 [1]))
     (parameters unit_policy) [1, 0, 0]"
proof -
  have "((\<lambda>t. pg_loss_at unit_policy (matrix 1 1 [[0]]) (matrix 1 1 [[0]]) (array1 [1])
                ([0, 0, 0][i := t])) has_real_derivative [1, 0, 0] ! i) (at ([0, 0, 0] ! i))"
    if "i < 3" for i
  proof -
    from that consider "i = 0" | "i = 1" | "i = 2" by linarith
    then show ?thesis
    proof cases
      case 1
      have u: "[0, 0, 0][i := t] = [t, 0, 0]" for t :: real using 1 by simp
      show ?thesis
        unfolding u unit_loss_at using 1 by (auto intro!: derivative_eq_intros)
    next
      case 2
      have u: "[0, 0, 0][i := t] = [0, t, 0]" for t :: real using 2 by simp
      show ?thesis
        unfolding u unit_loss_at using 2 by simp
    next
      case 3
      have u: "[0, 0, 0][i := t] = [0, 0, t]" for t :: real using 3 by (simp add: eval_nat_numeral)
      show ?thesis
        unfolding u unit_loss_at using 3
        by (auto simp: eval_nat_numeral intro!: derivative_eq_intros)
    qed
  qed
  then show ?thesis
    by (simp add: is_gradient_def parameters_unit_policy)
qed

lemma momentum_policy_inv: "policy_inv 1 1 False momentum_policy"
  unfolding momentum_policy_def
  using MLPPolicyPG_update_inv[OF MLPPolicy_init_inv[OF unit_policy_init]] by simp

lemma unit_update_success:
  "\<exists>d. snd (MLPPolicyPG_update unit_policy (matrix 1 1 [[0]]) (matrix 1 1 [[0]]) (array1 [1]) [1, 0, 0])
       = Inr d"
  using pg_loss_continuous[OF MLPPolicy_init_inv[OF unit_policy_init], where n = 1
      and obs = "matrix 1 1 [[0]]" and actions = "matrix 1 1 [[0]]" and advantages = "array1 [1]"
      and g = "[1, 0, 0]"]
  by (auto simp: from_numpy_def matrix_def array1_def vector_def)

lemma momentum_optimizer:
  "lr (MLPPolicy.optimizer momentum_policy) = 1 / 10
   \<and> exp_avg (MLPPolicy.optimizer momentum_policy) = [1 / 10, 0, 0]
   \<and> exp_avg_sq (MLPPolicy.optimizer momentum_policy) = [1 / 1000, 0, 0]"
proof -
  obtain w opt where a: "adam_step (MLPPolicy.optimizer unit_policy) (parameters unit_policy) [1, 0, 0]
      = (w, opt)"
    by (cases "adam_step (MLPPolicy.optimizer unit_policy) (parameters unit_policy) [1, 0, 0]")
  from unit_update_success obtain d where
    "snd (MLPPolicyPG_update unit_policy (matrix 1 1 [[0]]) (matrix 1 1 [[0]]) (array1 [1]) [1, 0, 0])
       = Inr d" by blast
  with a have "MLPPolicy.optimizer momentum_policy = opt"
    by (auto simp: momentum_policy_def MLPPolicyPG_update_def Let_def parameters_grad
        split: if_splits sum.splits)
  moreover from a have "opt = snd (adam_step (MLPPolicy.optimizer unit_policy) [0, 0, 0] [1, 0, 0])"
    by (simp add: parameters_unit_policy)
  ultimately show ?thesis
    by (simp add: adam_step_def Let_def unit_policy_def beta1_def beta2_def eval_nat_numeral)
qed

lemma length_parameters_momentum: "length (parameters momentum_policy) = 3"
proof -
  from unit_update_success obtain d where
    "snd (MLPPolicyPG_update unit_policy (matrix 1 1 [[0]]) (matrix 1 1 [[0]]) (array1 [1]) [1, 0, 0])
       = Inr d" by blast
  from parameters_update_success[OF this] show ?thesis
    by (simp add: momentum_policy_def adam_step_length parameters_unit_policy)
qed

text \<open>
  C5 as stated fails for a policy that has been updated before. The policy below is
  updated once with the advantage 1 (the gradient of that loss is 1 in the log-std and 0
  in weight and bias), which leaves a first-moment estimate of 1/10 for the log-std.
  A second update with the advantage 0 has the zero gradient, and still moves the
  log-std: the optimizer steps along its moment estimate.
\<close>

theorem zero_advantages_counterexample:
  "MLPPolicy_init (\<lambda>x. x) (\<lambda>i. 0) 1 1 False 0 8 (1 / 10) = Inr unit_policy
   \<and> is_gradient (pg_loss_at unit_policy (matrix 1 1 [[0]]) (matrix 1 1 [[0]]) (array1 [1]))
        (parameters unit_policy) [1, 0, 0]
   \<and> momentum_policy
        = fst (MLPPolicyPG_update unit_policy (matrix 1 1 [[0]]) (matrix 1 1 [[0]]) (array1 [1]) [1, 0, 0])
   \<and> entries (from_numpy (array1 [0])) = [0]
   \<and> is_gradient (pg_loss_at momentum_policy (matrix 1 1 [[0]]) (matrix 1 1 [[0]]) (array1 [0]))
        (parameters momentum_policy) [0, 0, 0]
   \<and> parameters (fst (MLPPolicyPG_update momentum_policy (matrix 1 1 [[0]]) (matrix 1 1 [[0]])
                        (array1 [0]) [0, 0, 0]))
       \<noteq> parameters momentum_policy"
proof (intro conjI)
  show "MLPPolicy_init (\<lambda>x. x) (\<lambda>i. 0) 1 1 False 0 8 (1 / 10) = Inr unit_policy"
    by (rule unit_policy_init)
  show "is_gradient (pg_loss_at unit_policy (matrix 1 1 [[0]]) (matrix 1 1 [[0]]) (array1 [1]))
        (parameters unit_policy) [1, 0, 0]"
    by (rule unit_gradient)
  show "momentum_policy
        = fst (MLPPolicyPG_update unit_policy (matrix 1 1 [[0]]) (matrix 1 1 [[0]]) (array1 [1]) [1, 0, 0])"
    by (rule momentum_policy_def)
  show "entries (from_numpy (array1 [0])) = [0]"
    by (simp add: entries_def from_numpy_def array1_def vector_def)
  have "pg_loss_at momentum_policy (matrix 1 1 [[0]]) (matrix 1 1 [[0]]) (array1 [0]) = (\<lambda>w. 0)"
    by (rule ext) (rule pg_loss_at_zero[OF zero_array])
  then show "is_gradient (pg_loss_at momentum_policy (matrix 1 1 [[0]]) (matrix 1 1 [[0]]) (array1 [0]))
        (parameters momentum_policy) [0, 0, 0]"
    using is_gradient_const_zero[of 0 "parameters momentum_policy"]
    by (simp add: length_parameters_momentum eval_nat_numeral)
  let ?u = "MLPPolicyPG_update momentum_policy (matrix 1 1 [[0]]) (matrix 1 1 [[0]]) (array1 [0]) [0, 0, 0]"
  from pg_loss_continuous[OF momentum_policy_inv, where n = 1
      and obs = "matrix 1 1 [[0]]" and actions = "matrix 1 1 [[0]]" and advantages = "array1 [0]"
      and g = "[0, 0, 0]"]
  obtain d where "snd ?u = Inr d"
    by (auto simp: from_numpy_def matrix_def array1_def vector_def)
  from parameters_update_success[OF this]
  have p: "parameters (fst ?u)
      = fst (adam_step (MLPPolicy.optimizer momentum_policy) (parameters momentum_policy) [0, 0, 0])" .
  have "fst (adam_step (MLPPolicy.optimizer momentum_policy) (parameters momentum_policy) [0, 0, 0]) ! 0
      \<noteq> parameters momentum_policy ! 0"
    by (rule adam_step_moves) (simp_all add: length_parameters_momentum momentum_optimizer beta1_def)
  with p show "parameters (fst ?u) \<noteq> parameters momentum_policy" by auto
qed

section \<open>The base class and its subclass\<close>







end
